theory Spec2Isabelle
  imports Complex_Main
begin

section \<open>Values, exceptions and the environment\<close>

text \<open>
  Python values that travel through tasks, results and collaborator responses.
  A dictionary is an association list in insertion order, read through \<open>map_of\<close>;
  every key of a dictionary in this development is a string. Python's \<open>==\<close> is
  equality of these values, which is exact for the strings and \<open>None\<close> that IP
  identifiers and task types are.
\<close>

datatype pyval =
    PNone
  | PInt int
  | PStr string
  | PList "pyval list"
  | PDict "(string \<times> pyval) list"

type_synonym pydict = "(string \<times> pyval) list"

text \<open>
  The subclasses of \<open>Exception\<close> that the agent code can meet: the \<open>ValueError\<close> it
  raises itself, the errors of subscripting and of \<open>random.choice\<close>, and any failure
  raised by a collaborator (opaque, carrying its message). Signals that derive from
  \<open>BaseException\<close> only, such as the cancellation of the running coroutine, are not
  modelled. The messages of the built-in errors are CPython's.
\<close>

datatype exn =
    ValueError string
  | KeyError pyval
  | IndexError string
  | TypeError string
  | CollaboratorError string

text \<open>
  One call to an injected collaborator, with the arguments the agent passes.
  \<open>ApplyStyle\<close> always carries the fixed parameters
  \<open>{"style_strength": 0.7, "preserve_identity": True}\<close>, which are left out.
\<close>

datatype call =
    CreateContent pyval
  | UploadJson pyval
  | CreateDerivativeContent pyval pyval "pyval option"
  | MintLicenseTokens pyval int pyval
  | ApplyStyle pyval pyval
  | ClaimRoyalties pyval pyval

text \<open>
  Everything the agent takes from outside: the collaborators' answers (which may depend
  on all the calls made before), the clock (the value of the n-th reading of
  \<open>datetime.utcnow()\<close>, in microseconds), the random source behind \<open>random.choice\<close>,
  and the interpreter's own renderings \<open>repr\<close> and \<open>datetime.isoformat\<close>.
\<close>

record env =
  respond :: "call list \<Rightarrow> call \<Rightarrow> exn + pyval"
  utcnow :: "nat \<Rightarrow> int"
  randbelow :: "nat \<Rightarrow> nat \<Rightarrow> nat"
  py_repr :: "pyval \<Rightarrow> string"
  isoformat :: "int \<Rightarrow> string"

record license_record =
  ip_id :: pyval
  license_tokens :: pyval
  licensed_at :: int

record derivative_record =
  d_ip_id :: pyval
  d_content_type :: pyval
  d_created_at :: int
  d_style_ip :: "pyval option"
  d_metadata :: "pyval option"

record history_entry =
  task :: pydict
  result :: pyval
  timestamp :: int

text \<open>
  Where the coroutine \<open>_task_execution_loop\<close> stands: not launched, about to test
  \<open>while self.is_active\<close>, suspended in \<open>wait_for(self.tasks_queue.get(), 60)\<close> on an
  empty queue, or returned.
\<close>

datatype loop_pc = NotLaunched | AtTop | Waiting | Exited

text \<open>
  The fields of \<open>BaseAgent\<close> and \<open>IdolAgent\<close>, followed by the trace of the
  environment: the collaborator calls made so far, the number of clock readings, the
  number of random draws, and the execution loops. \<open>start\<close> launches a loop on every
  call. \<open>loop\<close> is the position of the loop launched first, or launched again after
  that one had returned; \<open>untraced_loops\<close> counts the loops launched while it was still
  running. These are further consumers of the same queue, and their steps are not
  followed here: what is said below about the queue of a running agent is said for
  \<open>untraced_loops = 0\<close>, an agent with one loop.
\<close>

record agent =
  agent_id :: string
  is_active :: bool
  created_at :: int
  last_activity :: "int option"
  tasks_queue :: "pydict list"
  execution_history :: "history_entry list"
  idol_id :: string
  idol_metadata :: pydict
  content_strategy :: pydict
  licensed_ips :: "license_record list"
  created_derivatives :: "derivative_record list"
  calls :: "call list"
  clock_reads :: nat
  random_draws :: nat
  loop :: loop_pc
  untraced_loops :: nat

subsection \<open>Python primitives\<close>

definition dict_get :: "pydict \<Rightarrow> string \<Rightarrow> pyval" where
  \<comment> \<open>\<open>d.get(k)\<close>: the value, or \<open>None\<close> for a missing key\<close>
  "dict_get d k = (case map_of d k of None \<Rightarrow> PNone | Some v \<Rightarrow> v)"

fun truthy :: "pyval \<Rightarrow> bool" where
  "truthy PNone = False"
| "truthy (PInt i) = (i \<noteq> 0)"
| "truthy (PStr s) = (s \<noteq> [])"
| "truthy (PList xs) = (xs \<noteq> [])"
| "truthy (PDict d) = (d \<noteq> [])"

fun py_str :: "env \<Rightarrow> pyval \<Rightarrow> string" where
  \<comment> \<open>\<open>str(v)\<close>, which is also what an f-string field renders\<close>
  "py_str E PNone = ''None''"
| "py_str E (PStr s) = s"
| "py_str E v = py_repr E v"

fun exn_str :: "env \<Rightarrow> exn \<Rightarrow> string" where
  \<comment> \<open>\<open>str(e)\<close>\<close>
  "exn_str E (ValueError m) = m"
| "exn_str E (KeyError k) = py_repr E k"
| "exn_str E (IndexError m) = m"
| "exn_str E (TypeError m) = m"
| "exn_str E (CollaboratorError m) = m"

fun subscript :: "pyval \<Rightarrow> string \<Rightarrow> exn + pyval" where
  \<comment> \<open>\<open>v[k]\<close> for a string key \<open>k\<close>\<close>
  "subscript (PDict d) k =
     (case map_of d k of None \<Rightarrow> Inl (KeyError (PStr k)) | Some v \<Rightarrow> Inr v)"
| "subscript (PList xs) k = Inl (TypeError ''list indices must be integers or slices, not str'')"
| "subscript (PStr s) k = Inl (TypeError ''string indices must be integers'')"
| "subscript PNone k = Inl (TypeError '''NoneType' object is not subscriptable'')"
| "subscript (PInt i) k = Inl (TypeError '''int' object is not subscriptable'')"

fun first_item :: "pyval \<Rightarrow> exn + pyval" where
  \<comment> \<open>\<open>v[0]\<close>\<close>
  "first_item (PList []) = Inl (IndexError ''list index out of range'')"
| "first_item (PList (x # xs)) = Inr x"
| "first_item (PStr []) = Inl (IndexError ''string index out of range'')"
| "first_item (PStr (c # cs)) = Inr (PStr [c])"
| "first_item (PDict d) = Inl (KeyError (PInt 0))"
| "first_item PNone = Inl (TypeError '''NoneType' object is not subscriptable'')"
| "first_item (PInt i) = Inl (TypeError '''int' object is not subscriptable'')"

definition now :: "env \<Rightarrow> agent \<Rightarrow> int \<times> agent" where
  \<comment> \<open>one reading of \<open>datetime.utcnow()\<close>\<close>
  "now E s = (utcnow E (clock_reads s), s\<lparr>clock_reads := Suc (clock_reads s)\<rparr>)"

definition collaborator :: "env \<Rightarrow> call \<Rightarrow> agent \<Rightarrow> (exn + pyval) \<times> agent" where
  \<comment> \<open>an awaited call to an injected service: it is recorded, and answers or raises\<close>
  "collaborator E c s = (respond E (calls s) c, s\<lparr>calls := calls s @ [c]\<rparr>)"

definition random_choice :: "env \<Rightarrow> pyval \<Rightarrow> agent \<Rightarrow> (exn + pyval) \<times> agent" where
  \<comment> \<open>\<open>random.choice(seq)\<close>: \<open>seq[randbelow(len(seq))]\<close>, IndexError on an empty sequence\<close>
  "random_choice E seq s =
     (case seq of
        PList xs \<Rightarrow>
          (if xs = [] then (Inl (IndexError ''Cannot choose from an empty sequence''), s)
           else (Inr (xs ! (randbelow E (random_draws s) (length xs) mod length xs)),
                 s\<lparr>random_draws := Suc (random_draws s)\<rparr>))
      | PStr cs \<Rightarrow>
          (if cs = [] then (Inl (IndexError ''Cannot choose from an empty sequence''), s)
           else (Inr (PStr [cs ! (randbelow E (random_draws s) (length cs) mod length cs)]),
                 s\<lparr>random_draws := Suc (random_draws s)\<rparr>))
      | PDict d \<Rightarrow>
          (if d = [] then (Inl (IndexError ''Cannot choose from an empty sequence''), s)
           else (Inl (KeyError (PInt (int (randbelow E (random_draws s) (length d) mod length d)))),
                 s\<lparr>random_draws := Suc (random_draws s)\<rparr>))
      | PNone \<Rightarrow> (Inl (TypeError ''object of type 'NoneType' has no len()''), s)
      | PInt i \<Rightarrow> (Inl (TypeError ''object of type 'int' has no len()''), s))"

section \<open>IdolAgent: the domain operations\<close>

definition generate_content :: "env \<Rightarrow> pyval \<Rightarrow> agent \<Rightarrow> (exn + pyval) \<times> agent" where
  "generate_content E content_type0 s =
     (case (if \<not> truthy content_type0
            then (case subscript (PDict (content_strategy s)) ''content_types'' of
                    Inl e \<Rightarrow> (Inl e, s)
                  | Inr types \<Rightarrow> random_choice E types s)
            else (Inr content_type0, s)) of
        (Inl e, s1) \<Rightarrow> (Inl e, s1)
      | (Inr content_type, s1) \<Rightarrow>
     (case collaborator E (CreateContent (PDict
              [(''idol_name'', dict_get (idol_metadata s1) ''name''),
               (''personality'', dict_get (idol_metadata s1) ''personality''),
               (''style'', dict_get (idol_metadata s1) ''style''),
               (''content_type'', content_type)])) s1 of
        (Inl e, s2) \<Rightarrow> (Inl e, s2)
      | (Inr generated_content, s2) \<Rightarrow>
     (case subscript generated_content ''metadata'' of
        Inl e \<Rightarrow> (Inl e, s2)
      | Inr metadata \<Rightarrow>
     (case collaborator E (UploadJson metadata) s2 of
        (Inl e, s3) \<Rightarrow> (Inl e, s3)
      | (Inr ipfs_hash, s3) \<Rightarrow>
     (case now E s3 of (generated_at, s4) \<Rightarrow>
     (let ip_metadata =
            [(''metadata_uri'', PStr (''ipfs://'' @ py_str E ipfs_hash)),
             (''nft_metadata_uri'', PStr (''ipfs://'' @ py_str E ipfs_hash)),
             (''content_type'', content_type),
             (''generated_at'', PStr (isoformat E generated_at))]
      in
     (case subscript generated_content ''ip_id'' of
        Inl e \<Rightarrow> (Inl e, s4)
      | Inr child_ip_id \<Rightarrow>
     (case collaborator E (CreateDerivativeContent (PStr (idol_id s4))
              (PDict ([(''child_ip_id'', child_ip_id),
                       (''license_terms_ids'', PList [PStr ''1''])] @ ip_metadata))
              None) s4 of
        (Inl e, s5) \<Rightarrow> (Inl e, s5)
      | (Inr derivative_ip, s5) \<Rightarrow>
     (case subscript derivative_ip ''ip_id'' of
        Inl e \<Rightarrow> (Inl e, s5)
      | Inr new_ip_id \<Rightarrow>
     (case now E s5 of (t, s6) \<Rightarrow>
        (Inr derivative_ip,
         s6\<lparr>created_derivatives := created_derivatives s6 @
               [\<lparr>d_ip_id = new_ip_id, d_content_type = content_type, d_created_at = t,
                 d_style_ip = None, d_metadata = Some (PDict ip_metadata)\<rparr>]\<rparr>)))))))))))"

definition license_external_ip :: "env \<Rightarrow> pyval \<Rightarrow> agent \<Rightarrow> (exn + pyval) \<times> agent" where
  "license_external_ip E target_ip_id s =
     (case collaborator E (MintLicenseTokens target_ip_id 1 (PStr (idol_id s))) s of
        (Inl e, s1) \<Rightarrow> (Inl e, s1)
      | (Inr license_result, s1) \<Rightarrow>
     (case subscript license_result ''license_token_ids'' of
        Inl e \<Rightarrow> (Inl e, s1)
      | Inr tokens \<Rightarrow>
     (case now E s1 of (t, s2) \<Rightarrow>
        (Inr license_result,
         s2\<lparr>licensed_ips := licensed_ips s2 @
               [\<lparr>ip_id = target_ip_id, license_tokens = tokens, licensed_at = t\<rparr>]\<rparr>))))"

definition obtain_license_token :: "env \<Rightarrow> pyval \<Rightarrow> agent \<Rightarrow> (exn + pyval) \<times> agent" where
  \<comment> \<open>the first statement group of \<open>create_remix\<close>: reuse the first matching entry of
      \<open>licensed_ips\<close>, or license the style IP now\<close>
  "obtain_license_token E style_ip_id s =
     (case find (\<lambda>lic. ip_id lic = style_ip_id) (licensed_ips s) of
        None \<Rightarrow>
          (case license_external_ip E style_ip_id s of
             (Inl e, s1) \<Rightarrow> (Inl e, s1)
           | (Inr license_result, s1) \<Rightarrow>
          (case subscript license_result ''license_token_ids'' of
             Inl e \<Rightarrow> (Inl e, s1)
           | Inr tokens \<Rightarrow> (first_item tokens, s1)))
      | Some existing_license \<Rightarrow> (first_item (license_tokens existing_license), s))"

definition create_remix :: "env \<Rightarrow> pyval \<Rightarrow> agent \<Rightarrow> (exn + pyval) \<times> agent" where
  "create_remix E style_ip_id s =
     (case obtain_license_token E style_ip_id s of
        (Inl e, s1) \<Rightarrow> (Inl e, s1)
      | (Inr license_token_id, s1) \<Rightarrow>
     (case collaborator E (ApplyStyle (PStr (idol_id s1)) style_ip_id) s1 of
        (Inl e, s2) \<Rightarrow> (Inl e, s2)
      | (Inr remix_content, s2) \<Rightarrow>
     (case subscript remix_content ''metadata'' of
        Inl e \<Rightarrow> (Inl e, s2)
      | Inr metadata \<Rightarrow>
     (case collaborator E (UploadJson metadata) s2 of
        (Inl e, s3) \<Rightarrow> (Inl e, s3)
      | (Inr ipfs_hash, s3) \<Rightarrow>
     (case subscript remix_content ''ip_id'' of
        Inl e \<Rightarrow> (Inl e, s3)
      | Inr child_ip_id \<Rightarrow>
     (case collaborator E (CreateDerivativeContent (PStr (idol_id s3))
              (PDict [(''child_ip_id'', child_ip_id),
                      (''metadata_uri'', PStr (''ipfs://'' @ py_str E ipfs_hash)),
                      (''nft_metadata_uri'', PStr (''ipfs://'' @ py_str E ipfs_hash))])
              (Some (PList [license_token_id]))) s3 of
        (Inl e, s4) \<Rightarrow> (Inl e, s4)
      | (Inr derivative_result, s4) \<Rightarrow>
     (case subscript derivative_result ''ip_id'' of
        Inl e \<Rightarrow> (Inl e, s4)
      | Inr new_ip_id \<Rightarrow>
     (case now E s4 of (t, s5) \<Rightarrow>
        (Inr derivative_result,
         s5\<lparr>created_derivatives := created_derivatives s5 @
               [\<lparr>d_ip_id = new_ip_id, d_content_type = PStr ''remix'', d_created_at = t,
                 d_style_ip = Some style_ip_id, d_metadata = None\<rparr>]\<rparr>)))))))))"

definition claim_accumulated_royalties :: "env \<Rightarrow> agent \<Rightarrow> (exn + pyval) \<times> agent" where
  "claim_accumulated_royalties E s =
     (if created_derivatives s = []
      then (Inr (PDict [(''status'', PStr ''no_derivatives''), (''claimed'', PInt 0)]), s)
      else collaborator E
             (ClaimRoyalties (PStr (idol_id s)) (PList (map d_ip_id (created_derivatives s)))) s)"

subsection \<open>Task handlers and dispatch\<close>

definition wrap_success :: "string \<Rightarrow> (exn + pyval) \<times> agent \<Rightarrow> (exn + pyval) \<times> agent" where
  \<comment> \<open>\<open>return {"status": "success", key: result}\<close> once the awaited operation returned\<close>
  "wrap_success key r =
     (case r of
        (Inl e, s') \<Rightarrow> (Inl e, s')
      | (Inr v, s') \<Rightarrow> (Inr (PDict [(''status'', PStr ''success''), (key, v)]), s'))"

definition generate_content_task :: "env \<Rightarrow> pydict \<Rightarrow> agent \<Rightarrow> (exn + pyval) \<times> agent" where
  "generate_content_task E tsk s =
     wrap_success ''content'' (generate_content E (dict_get tsk ''content_type'') s)"

definition license_ip_task :: "env \<Rightarrow> pydict \<Rightarrow> agent \<Rightarrow> (exn + pyval) \<times> agent" where
  "license_ip_task E tsk s =
     wrap_success ''license'' (license_external_ip E (dict_get tsk ''target_ip_id'') s)"

definition create_remix_task :: "env \<Rightarrow> pydict \<Rightarrow> agent \<Rightarrow> (exn + pyval) \<times> agent" where
  "create_remix_task E tsk s =
     wrap_success ''remix'' (create_remix E (dict_get tsk ''style_ip_id'') s)"

definition claim_royalties_task :: "env \<Rightarrow> pydict \<Rightarrow> agent \<Rightarrow> (exn + pyval) \<times> agent" where
  "claim_royalties_task E tsk s =
     wrap_success ''royalties'' (claim_accumulated_royalties E s)"

definition dispatch :: "env \<Rightarrow> pydict \<Rightarrow> agent \<Rightarrow> (exn + pyval) \<times> agent" where
  \<comment> \<open>the body of the \<open>try\<close> in \<open>execute_task\<close>\<close>
  "dispatch E tsk s =
     (let task_type = dict_get tsk ''type'' in
      if task_type = PStr ''generate_content'' then generate_content_task E tsk s
      else if task_type = PStr ''license_ip'' then license_ip_task E tsk s
      else if task_type = PStr ''create_remix'' then create_remix_task E tsk s
      else if task_type = PStr ''claim_royalties'' then claim_royalties_task E tsk s
      else (Inl (ValueError (''Unknown task type: '' @ py_str E task_type)), s))"

definition error_result :: "env \<Rightarrow> exn \<Rightarrow> pyval" where
  "error_result E e = PDict [(''status'', PStr ''error''), (''error'', PStr (exn_str E e))]"

definition execute_task :: "env \<Rightarrow> pydict \<Rightarrow> agent \<Rightarrow> (exn + pyval) \<times> agent" where
  \<comment> \<open>\<open>except Exception as e: return {"status": "error", "error": str(e)}\<close>\<close>
  "execute_task E tsk s =
     (case dispatch E tsk s of
        (Inl e, s') \<Rightarrow> (Inr (error_result E e), s')
      | (Inr v, s') \<Rightarrow> (Inr v, s'))"

section \<open>BaseAgent: lifecycle, queue and execution loop\<close>

definition new_idol_agent :: "env \<Rightarrow> string \<Rightarrow> pydict \<Rightarrow> pydict \<Rightarrow> agent" where
  \<comment> \<open>the agent \<open>IdolAgent.__init__\<close> builds when \<open>config["content_strategy"]\<close> is the
      dictionary \<open>strategy\<close>; the clock is read for \<open>created_at\<close> and once more for the
      posting schedule, which no operation below reads\<close>
  "new_idol_agent E idol metadata strategy =
     \<lparr>agent_id = ''idol-'' @ idol, is_active = False, created_at = utcnow E 0,
      last_activity = None, tasks_queue = [], execution_history = [],
      idol_id = idol, idol_metadata = metadata, content_strategy = strategy,
      licensed_ips = [], created_derivatives = [],
      calls = [], clock_reads = 2, random_draws = 0, loop = NotLaunched,
      untraced_loops = 0\<rparr>"

definition start :: "env \<Rightarrow> agent \<Rightarrow> agent" where
  \<comment> \<open>sets the flag, stamps \<open>last_activity\<close> and launches a loop coroutine, with no
      guard: beside a loop that is still running, the new one is a second consumer\<close>
  "start E s =
     (case now E (s\<lparr>is_active := True\<rparr>) of
        (t, s1) \<Rightarrow>
          (if loop s1 = NotLaunched \<or> loop s1 = Exited
           then s1\<lparr>last_activity := Some t, loop := AtTop\<rparr>
           else s1\<lparr>last_activity := Some t, untraced_loops := Suc (untraced_loops s1)\<rparr>))"

definition stop :: "agent \<Rightarrow> agent" where
  "stop s = s\<lparr>is_active := False\<rparr>"

definition add_task :: "pydict \<Rightarrow> agent \<Rightarrow> (exn + unit) \<times> agent" where
  \<comment> \<open>\<open>put\<close> on the unbounded queue, then the f-string of the debug message, which
      evaluates \<open>task['type']\<close>\<close>
  "add_task tsk s =
     (let s1 = s\<lparr>tasks_queue := tasks_queue s @ [tsk]\<rparr> in
      case subscript (PDict tsk) ''type'' of
        Inl e \<Rightarrow> (Inl e, s1)
      | Inr task_type \<Rightarrow> (Inr (), s1))"

definition keep_last_100 :: "history_entry list \<Rightarrow> history_entry list" where
  \<comment> \<open>\<open>if len(h) > 100: h = h[-100:]\<close>\<close>
  "keep_last_100 h = (if length h > 100 then drop (length h - 100) h else h)"

definition process_next :: "env \<Rightarrow> agent \<Rightarrow> agent" where
  \<comment> \<open>the rest of one iteration once \<open>get\<close> has a task: execute, stamp, record, trim;
      an exception out of \<open>execute_task\<close> is logged by the generic handler. Either way
      the coroutine is back at the loop test. \<open>loop_step\<close> calls it on a non-empty
      queue only.\<close>
  "process_next E s =
     (case tasks_queue s of
        [] \<Rightarrow> s
      | tsk # rest \<Rightarrow>
          (case execute_task E tsk (s\<lparr>tasks_queue := rest\<rparr>) of
             (Inl e, s1) \<Rightarrow> s1\<lparr>loop := AtTop\<rparr>
           | (Inr res, s1) \<Rightarrow>
               (case now E s1 of (t, s2) \<Rightarrow>
                  s2\<lparr>last_activity := Some t,
                     execution_history :=
                       keep_last_100 (execution_history s2 @
                                      [\<lparr>task = tsk, result = res, timestamp = t\<rparr>]),
                     loop := AtTop\<rparr>)))"

definition loop_step :: "env \<Rightarrow> agent \<Rightarrow> agent" where
  \<comment> \<open>the loop coroutine runs from where it stands to its next suspension: from the
      test it returns, or waits on the empty queue, or takes the first task; from the
      wait it takes the first task as soon as there is one\<close>
  "loop_step E s =
     (case loop s of
        NotLaunched \<Rightarrow> s
      | Exited \<Rightarrow> s
      | AtTop \<Rightarrow>
          (if \<not> is_active s then s\<lparr>loop := Exited\<rparr>
           else if tasks_queue s = [] then s\<lparr>loop := Waiting\<rparr>
           else process_next E s)
      | Waiting \<Rightarrow> (if tasks_queue s = [] then s else process_next E s))"

definition timeout :: "agent \<Rightarrow> agent" where
  \<comment> \<open>the 60 second timer of \<open>wait_for\<close> fires: \<open>except asyncio.TimeoutError: continue\<close>;
      nothing is dequeued\<close>
  "timeout s = (case loop s of Waiting \<Rightarrow> s\<lparr>loop := AtTop\<rparr> | _ \<Rightarrow> s)"

text \<open>
  What can happen to a started agent with one loop, one event at a time: another
  coroutine calls \<open>stop\<close> or \<open>add_task\<close>, the loop coroutine is scheduled, or its timer
  fires. The handlers of \<open>execute_task\<close> read neither \<open>is_active\<close> nor the queue, so
  a task in flight is one step. No event launches a loop.
\<close>

datatype event = Stop | AddTask pydict | LoopStep | Timeout

fun step :: "env \<Rightarrow> event \<Rightarrow> agent \<Rightarrow> agent" where
  "step E Stop s = stop s"
| "step E (AddTask tsk) s = snd (add_task tsk s)"
| "step E LoopStep s = loop_step E s"
| "step E Timeout s = timeout s"

fun run :: "env \<Rightarrow> event list \<Rightarrow> agent \<Rightarrow> agent" where
  "run E [] s = s"
| "run E (ev # evs) s = run E evs (step E ev s)"

fun added_tasks :: "event list \<Rightarrow> pydict list" where
  "added_tasks [] = []"
| "added_tasks (AddTask tsk # evs) = tsk # added_tasks evs"
| "added_tasks (ev # evs) = added_tasks evs"

subsection \<open>Metrics\<close>

record metrics =
  m_agent_id :: string
  m_is_active :: bool
  m_created_at :: string
  m_last_activity :: "string option"
  m_tasks_in_queue :: nat
  m_tasks_executed :: nat
  m_uptime_seconds :: real

definition get_metrics :: "env \<Rightarrow> agent \<Rightarrow> metrics \<times> agent" where
  \<comment> \<open>times are microseconds; \<open>total_seconds()\<close> divides by \<open>10**6\<close>\<close>
  "get_metrics E s =
     (case now E s of (t, s1) \<Rightarrow>
        (\<lparr>m_agent_id = agent_id s1,
          m_is_active = is_active s1,
          m_created_at = isoformat E (created_at s1),
          m_last_activity = map_option (isoformat E) (last_activity s1),
          m_tasks_in_queue = length (tasks_queue s1),
          m_tasks_executed = length (execution_history s1),
          m_uptime_seconds = real_of_int (t - created_at s1) / 1000000\<rparr>, s1))"

section \<open>A stub environment\<close>

text \<open>
  Collaborators as a test would inject them: minting is refused for the IP
  \<open>unlicensable\<close>, the style server fails the first request for the style \<open>flaky\<close>
  and answers every later one, everything else succeeds. The clock advances one second
  per reading.
\<close>

definition stub_respond :: "call list \<Rightarrow> call \<Rightarrow> exn + pyval" where
  "stub_respond cs c =
     (case c of
        CreateContent params \<Rightarrow>
          Inr (PDict [(''ip_id'', PStr ''content-1''), (''metadata'', PDict [])])
      | UploadJson obj \<Rightarrow> Inr (PStr ''Qm1'')
      | CreateDerivativeContent parent md toks \<Rightarrow> Inr (PDict [(''ip_id'', PStr ''derivative-1'')])
      | MintLicenseTokens ip n receiver \<Rightarrow>
          (if ip = PStr ''unlicensable'' then Inl (CollaboratorError ''mint reverted'')
           else Inr (PDict [(''license_token_ids'', PList [PStr ''token-1''])]))
      | ApplyStyle base style \<Rightarrow>
          (if style = PStr ''flaky'' \<and> ApplyStyle base style \<notin> set cs
           then Inl (CollaboratorError ''style server unavailable'')
           else Inr (PDict [(''ip_id'', PStr ''remix-1''), (''metadata'', PDict [])]))
      | ClaimRoyalties ip children \<Rightarrow> Inr (PDict [(''claimed_amount'', PInt 5)]))"

definition stub_env :: env where
  "stub_env = \<lparr>respond = stub_respond, utcnow = (\<lambda>n. 1000000 * int n),
               randbelow = (\<lambda>k n. 0), py_repr = (\<lambda>v. ''<repr>''),
               isoformat = (\<lambda>t. ''<iso>'')\<rparr>"

definition stub_agent :: agent where
  "stub_agent = new_idol_agent stub_env ''0xA1'' [(''name'', PStr ''Mika'')]
                  [(''content_types'', PList [PStr ''image''])]"

section \<open>What the domain operations leave alone\<close>

text \<open>
  No handler writes the fields of \<open>BaseAgent\<close>, the position of the loop, or the
  identity and configuration of the idol.
\<close>

definition base_fields_kept :: "agent \<Rightarrow> agent \<Rightarrow> bool" where
  "base_fields_kept s s' \<longleftrightarrow>
     agent_id s' = agent_id s \<and> is_active s' = is_active s \<and> created_at s' = created_at s \<and>
     last_activity s' = last_activity s \<and> tasks_queue s' = tasks_queue s \<and>
     execution_history s' = execution_history s \<and> loop s' = loop s \<and>
     idol_id s' = idol_id s \<and> idol_metadata s' = idol_metadata s \<and>
     content_strategy s' = content_strategy s \<and> untraced_loops s' = untraced_loops s"

definition last100 :: "'a list \<Rightarrow> 'a list" where
  \<comment> \<open>the slice \<open>xs[-100:]\<close>\<close>
  "last100 xs = drop (length xs - 100) xs"

definition is_mint :: "call \<Rightarrow> bool" where
  "is_mint c = (case c of MintLicenseTokens ip n receiver \<Rightarrow> True | _ \<Rightarrow> False)"

definition calls_since :: "agent \<Rightarrow> agent \<Rightarrow> call list" where
  \<comment> \<open>the collaborator calls made on the way from \<open>s\<close> to \<open>s'\<close>\<close>
  "calls_since s s' = drop (length (calls s)) (calls s')"

lemma base_fields_kept_refl[simp]: "base_fields_kept s s"
  by (simp add: base_fields_kept_def)

lemma base_fields_kept_trans:
  "base_fields_kept s s1 \<Longrightarrow> base_fields_kept s1 s2 \<Longrightarrow> base_fields_kept s s2"
  by (simp add: base_fields_kept_def)

lemma collaborator_kept: "collaborator E c s = (r, s') \<Longrightarrow> base_fields_kept s s'"
  by (auto simp: collaborator_def base_fields_kept_def)

lemma now_kept: "now E s = (t, s') \<Longrightarrow> base_fields_kept s s'"
  by (auto simp: now_def base_fields_kept_def)

lemma random_choice_kept: "random_choice E v s = (r, s') \<Longrightarrow> base_fields_kept s s'"
  by (auto simp: random_choice_def base_fields_kept_def split: pyval.splits if_splits)

lemma generate_content_kept: "generate_content E ct s = (r, s') \<Longrightarrow> base_fields_kept s s'"
  unfolding generate_content_def Let_def
  by (auto split: if_splits sum.splits prod.splits
      dest!: collaborator_kept now_kept random_choice_kept simp: base_fields_kept_def)

lemma license_external_ip_kept: "license_external_ip E ip s = (r, s') \<Longrightarrow> base_fields_kept s s'"
  unfolding license_external_ip_def
  by (auto split: sum.splits prod.splits
      dest!: collaborator_kept now_kept simp: base_fields_kept_def)

lemma obtain_license_token_kept: "obtain_license_token E ip s = (r, s') \<Longrightarrow> base_fields_kept s s'"
  unfolding obtain_license_token_def
  by (auto split: sum.splits prod.splits option.splits
      dest!: license_external_ip_kept)

lemma create_remix_kept: "create_remix E ip s = (r, s') \<Longrightarrow> base_fields_kept s s'"
  unfolding create_remix_def
  by (auto split: sum.splits prod.splits
      dest!: collaborator_kept now_kept obtain_license_token_kept simp: base_fields_kept_def)

lemma claim_kept: "claim_accumulated_royalties E s = (r, s') \<Longrightarrow> base_fields_kept s s'"
  unfolding claim_accumulated_royalties_def
  by (auto split: if_splits dest!: collaborator_kept)

lemma wrap_success_snd: "snd (wrap_success k r) = snd r"
  by (auto simp: wrap_success_def split: prod.splits sum.splits)

lemma dispatch_kept: "dispatch E tsk s = (r, s') \<Longrightarrow> base_fields_kept s s'"
  unfolding dispatch_def Let_def generate_content_task_def license_ip_task_def
     create_remix_task_def claim_royalties_task_def wrap_success_def
  by (auto split: if_splits sum.splits prod.splits
      dest: generate_content_kept license_external_ip_kept create_remix_kept claim_kept)

lemma execute_task_kept: "execute_task E tsk s = (r, s') \<Longrightarrow> base_fields_kept s s'"
  unfolding execute_task_def
  by (auto split: sum.splits prod.splits dest: dispatch_kept)

lemma execute_task_returns: "\<exists>v. fst (execute_task E tsk s) = Inr v"
  by (auto simp: execute_task_def split: prod.splits sum.splits)

section \<open>One iteration of the loop, and draining a queue\<close>

lemma keep_last_100_eq: "keep_last_100 h = last100 h"
  by (simp add: keep_last_100_def last100_def)

lemma map_last100: "map f (last100 xs) = last100 (map f xs)"
  by (simp add: last100_def drop_map)

lemma length_last100: "length (last100 xs) \<le> 100"
  by (simp add: last100_def)

lemma last100_absorb: "last100 (last100 xs @ ys) = last100 (xs @ ys)"
  by (cases "length xs \<le> 100") (auto simp: last100_def add.commute)

lemma last100_short: "length xs \<le> 100 \<Longrightarrow> last100 xs = xs"
  by (simp add: last100_def)

lemma process_next_cons:
  assumes q: "tasks_queue s = tsk # rest"
  shows "\<exists>res s1. execute_task E tsk (s\<lparr>tasks_queue := rest\<rparr>) = (Inr res, s1) \<and>
           process_next E s =
             s1\<lparr>clock_reads := Suc (clock_reads s1), last_activity := Some (utcnow E (clock_reads s1)),
                execution_history := last100 (execution_history s @
                                        [\<lparr>task = tsk, result = res, timestamp = utcnow E (clock_reads s1)\<rparr>]),
                loop := AtTop\<rparr>"
proof -
  obtain r s1 where ex: "execute_task E tsk (s\<lparr>tasks_queue := rest\<rparr>) = (r, s1)"
    by (cases "execute_task E tsk (s\<lparr>tasks_queue := rest\<rparr>)")
  from execute_task_returns [of E tsk "s\<lparr>tasks_queue := rest\<rparr>"] ex
  obtain res where r: "r = Inr res" by auto
  from execute_task_kept [OF ex] have h: "execution_history s1 = execution_history s"
    by (simp add: base_fields_kept_def)
  show ?thesis
    using q ex r h by (simp add: process_next_def now_def keep_last_100_eq)
qed

lemma process_next_fields:
  assumes q: "tasks_queue s = tsk # rest"
  shows "tasks_queue (process_next E s) = rest"
    and "is_active (process_next E s) = is_active s"
    and "loop (process_next E s) = AtTop"
    and "map task (execution_history (process_next E s)) =
           last100 (map task (execution_history s) @ [tsk])"
    and "length (execution_history (process_next E s)) \<le> 100"
    and "untraced_loops (process_next E s) = untraced_loops s"
proof -
  from process_next_cons [OF q, of E] obtain res s1 where
    ex: "execute_task E tsk (s\<lparr>tasks_queue := rest\<rparr>) = (Inr res, s1)" and
    pn: "process_next E s =
             s1\<lparr>clock_reads := Suc (clock_reads s1), last_activity := Some (utcnow E (clock_reads s1)),
                execution_history := last100 (execution_history s @
                                        [\<lparr>task = tsk, result = res, timestamp = utcnow E (clock_reads s1)\<rparr>]),
                loop := AtTop\<rparr>" by blast
  from execute_task_kept [OF ex] have k: "tasks_queue s1 = rest" "is_active s1 = is_active s"
    "untraced_loops s1 = untraced_loops s"
    by (simp_all add: base_fields_kept_def)
  show "tasks_queue (process_next E s) = rest" using pn k by simp
  show "is_active (process_next E s) = is_active s" using pn k by simp
  show "loop (process_next E s) = AtTop" using pn by simp
  show "map task (execution_history (process_next E s)) =
           last100 (map task (execution_history s) @ [tsk])" using pn by (simp add: map_last100)
  show "length (execution_history (process_next E s)) \<le> 100" using pn by (simp add: length_last100)
  show "untraced_loops (process_next E s) = untraced_loops s" using pn k by simp
qed

lemma run_append: "run E (evs @ evs') s = run E evs' (run E evs s)"
  by (induction evs arbitrary: s) auto

lemma run_add_tasks: "run E (map AddTask ts) s = s\<lparr>tasks_queue := tasks_queue s @ ts\<rparr>"
  by (induction ts arbitrary: s) (auto simp: add_task_def Let_def split: sum.splits)

lemma drain:
  "is_active s \<Longrightarrow> loop s = AtTop \<or> loop s = Waiting \<Longrightarrow> n \<le> length (tasks_queue s) \<Longrightarrow>
   length (execution_history s) \<le> 100 \<Longrightarrow>
   tasks_queue (run E (replicate n LoopStep) s) = drop n (tasks_queue s) \<and>
   map task (execution_history (run E (replicate n LoopStep) s)) =
     last100 (map task (execution_history s) @ take n (tasks_queue s)) \<and>
   is_active (run E (replicate n LoopStep) s) \<and>
   (loop (run E (replicate n LoopStep) s) = AtTop \<or> loop (run E (replicate n LoopStep) s) = Waiting)"
proof (induction n arbitrary: s)
  case 0
  then show ?case by (simp add: last100_short)
next
  case (Suc n)
  then obtain tsk rest where q: "tasks_queue s = tsk # rest" by (cases "tasks_queue s") auto
  have ls: "loop_step E s = process_next E s"
    using Suc.prems q by (auto simp: loop_step_def)
  note pf = process_next_fields [OF q, of E]
  have "n \<le> length (tasks_queue (process_next E s))" using Suc.prems q pf by simp
  from Suc.IH [of "process_next E s"] this pf Suc.prems
  show ?case using q ls by (simp add: last100_absorb)
qed

lemma start_fields:
  "tasks_queue (start E s) = tasks_queue s"
  "execution_history (start E s) = execution_history s"
  "is_active (start E s)"
  "loop (start E s) = (if loop s = NotLaunched \<or> loop s = Exited then AtTop else loop s)"
  "untraced_loops (start E s) =
     (if loop s = NotLaunched \<or> loop s = Exited then untraced_loops s
      else Suc (untraced_loops s))"
  by (simp_all add: start_def now_def)

lemma second_start_is_counted:
  "loop (start E (new_idol_agent E idol md strategy)) = AtTop"
  "untraced_loops (start E (new_idol_agent E idol md strategy)) = 0"
  "loop (start E (start E (new_idol_agent E idol md strategy))) = AtTop"
  "untraced_loops (start E (start E (new_idol_agent E idol md strategy))) = 1"
  by (simp_all add: start_def now_def new_idol_agent_def)

lemma new_idol_agent_fields:
  "tasks_queue (new_idol_agent E idol md strategy) = []"
  "execution_history (new_idol_agent E idol md strategy) = []"
  "loop (new_idol_agent E idol md strategy) = NotLaunched"
  "untraced_loops (new_idol_agent E idol md strategy) = 0"
  by (simp_all add: new_idol_agent_def)

lemma step_history_bound:
  "length (execution_history s) \<le> 100 \<Longrightarrow> length (execution_history (step E ev s)) \<le> 100"
proof (cases ev)
  case LoopStep
  assume b: "length (execution_history s) \<le> 100"
  show ?thesis
  proof (cases "tasks_queue s")
    case Nil
    then show ?thesis using b LoopStep
      by (auto simp: loop_step_def process_next_def split: loop_pc.splits)
  next
    case (Cons tsk rest)
    from process_next_fields(5) [OF Cons, of E] b LoopStep show ?thesis
      by (auto simp: loop_step_def split: loop_pc.splits)
  qed
qed (auto simp: stop_def add_task_def timeout_def Let_def split: sum.splits loop_pc.splits)

lemma run_history_bound:
  "length (execution_history s) \<le> 100 \<Longrightarrow> length (execution_history (run E evs s)) \<le> 100"
  by (induction evs arbitrary: s) (auto simp: step_history_bound)

lemma drained_start:
  assumes "k \<le> length ts"
  shows "tasks_queue (run E (replicate k LoopStep)
            (start E (run E (map AddTask ts) (new_idol_agent E idol md strategy)))) = drop k ts"
    and "map task (execution_history (run E (replicate k LoopStep)
            (start E (run E (map AddTask ts) (new_idol_agent E idol md strategy))))) =
         last100 (take k ts)"
proof -
  let ?s0 = "start E (run E (map AddTask ts) (new_idol_agent E idol md strategy))"
  have q: "tasks_queue ?s0 = ts" and h: "execution_history ?s0 = []"
    by (simp_all add: start_fields run_add_tasks new_idol_agent_fields)
  have "is_active ?s0" "loop ?s0 = AtTop \<or> loop ?s0 = Waiting" "k \<le> length (tasks_queue ?s0)"
       "length (execution_history ?s0) \<le> 100"
    using assms q h by (simp_all add: start_fields run_add_tasks new_idol_agent_fields)
  from drain [OF this, of E] q h
  show "tasks_queue (run E (replicate k LoopStep) ?s0) = drop k ts"
    and "map task (execution_history (run E (replicate k LoopStep) ?s0)) = last100 (take k ts)"
    by simp_all
qed

section \<open>A stopped agent\<close>

lemma stop_fields:
  "stop s = s\<lparr>is_active := False\<rparr>" by (simp add: stop_def)

lemma stopped_step:
  assumes "\<not> is_active s" "loop s \<noteq> Waiting"
  shows "\<not> is_active (step E ev s)" "loop (step E ev s) \<noteq> Waiting"
        "tasks_queue (step E ev s) = tasks_queue s @ added_tasks [ev]"
        "execution_history (step E ev s) = execution_history s"
        "calls (step E ev s) = calls s"
  using assms
  by (cases ev; auto simp: stop_def add_task_def Let_def loop_step_def timeout_def
        split: sum.splits loop_pc.splits)+

lemma step_untraced_loops: "untraced_loops (step E ev s) = untraced_loops s"
proof (cases ev)
  case LoopStep
  show ?thesis
  proof (cases "tasks_queue s")
    case Nil
    with LoopStep show ?thesis
      by (auto simp: loop_step_def process_next_def split: loop_pc.splits)
  next
    case (Cons tsk rest)
    from process_next_fields(6) [OF Cons, of E] LoopStep show ?thesis
      by (auto simp: loop_step_def split: loop_pc.splits)
  qed
qed (auto simp: stop_def add_task_def timeout_def Let_def split: sum.splits loop_pc.splits)

lemma run_untraced_loops: "untraced_loops (run E evs s) = untraced_loops s"
  by (induction evs arbitrary: s) (auto simp: step_untraced_loops)

lemma added_tasks_Cons: "added_tasks (ev # evs) = added_tasks [ev] @ added_tasks evs"
  by (cases ev) auto

lemma stopped_run:
  "\<not> is_active s \<Longrightarrow> loop s \<noteq> Waiting \<Longrightarrow>
   tasks_queue (run E evs s) = tasks_queue s @ added_tasks evs \<and>
   execution_history (run E evs s) = execution_history s \<and>
   calls (run E evs s) = calls s"
proof (induction evs arbitrary: s)
  case Nil
  then show ?case by simp
next
  case (Cons ev evs)
  from stopped_step [OF Cons.prems, of E ev] Cons.IH [of "step E ev s"]
  show ?case by (simp add: added_tasks_Cons [of ev evs])
qed

lemma stopped_run_at_most_one:
  "\<not> is_active s \<Longrightarrow>
   tasks_queue (run E evs s) = tasks_queue s @ added_tasks evs \<or>
   tasks_queue (run E evs s) = tl (tasks_queue s @ added_tasks evs)"
proof (induction evs arbitrary: s)
  case Nil
  then show ?case by simp
next
  case (Cons ev evs)
  show ?case
  proof (cases "loop s = Waiting")
    case False
    with stopped_run [OF Cons.prems False, of E "ev # evs"] show ?thesis by simp
  next
    case True
    show ?thesis
    proof (cases ev)
      case Stop
      with Cons.IH [of "stop s"] Cons.prems show ?thesis by (simp add: stop_def)
    next
      case (AddTask tsk)
      have "snd (add_task tsk s) = s\<lparr>tasks_queue := tasks_queue s @ [tsk]\<rparr>"
        by (simp add: add_task_def Let_def split: sum.splits)
      with AddTask Cons.IH [of "s\<lparr>tasks_queue := tasks_queue s @ [tsk]\<rparr>"] Cons.prems
      show ?thesis by simp
    next
      case Timeout
      with Cons.IH [of "s\<lparr>loop := AtTop\<rparr>"] Cons.prems True show ?thesis
        by (simp add: timeout_def)
    next
      case LoopStep
      show ?thesis
      proof (cases "tasks_queue s")
        case Nil
        with LoopStep True have "step E ev s = s" by (simp add: loop_step_def)
        with Cons.IH [of s] Cons.prems LoopStep show ?thesis by simp
      next
        case (Cons tsk rest)
        note pf = process_next_fields [OF Cons, of E]
        have st: "step E ev s = process_next E s"
          using LoopStep True Cons by (simp add: loop_step_def)
        have "\<not> is_active (process_next E s)" "loop (process_next E s) \<noteq> Waiting"
          using pf \<open>\<not> is_active s\<close> by simp_all
        from stopped_run [OF this, of E evs] pf(1) st Cons LoopStep
        show ?thesis by simp
      qed
    qed
  qed
qed

section \<open>The calls of \<open>create_remix\<close>\<close>

lemma create_remix_no_token:
  "obtain_license_token E style s = (Inl e, s1) \<Longrightarrow> create_remix E style s = (Inl e, s1)"
  by (simp add: create_remix_def)

lemma create_remix_with_token:
  assumes "obtain_license_token E style s = (Inr tok, s1)"
  shows "take (length (calls s1)) (calls (snd (create_remix E style s))) = calls s1"
    and "hd (calls_since s1 (snd (create_remix E style s))) = ApplyStyle (PStr (idol_id s1)) style"
    and "calls_since s1 (snd (create_remix E style s)) \<noteq> []"
    and "filter is_mint (calls_since s1 (snd (create_remix E style s))) = []"
    and "CreateDerivativeContent p m toks \<in> set (calls_since s1 (snd (create_remix E style s)))
         \<Longrightarrow> toks = Some (PList [tok])"
    and "licensed_ips (snd (create_remix E style s)) = licensed_ips s1"
    and "fst (create_remix E style s) = Inl e \<Longrightarrow>
           created_derivatives (snd (create_remix E style s)) = created_derivatives s1"
  using assms
  by (auto simp: create_remix_def collaborator_def now_def calls_since_def is_mint_def
       split: sum.splits prod.splits)

lemma license_external_ip_effect:
  "calls (snd (license_external_ip E ip s)) = calls s @ [MintLicenseTokens ip 1 (PStr (idol_id s))]"
  "created_derivatives (snd (license_external_ip E ip s)) = created_derivatives s"
  "fst (license_external_ip E ip s) = Inr lr \<Longrightarrow>
     respond E (calls s) (MintLicenseTokens ip 1 (PStr (idol_id s))) = Inr lr \<and>
     (\<exists>tokens. subscript lr ''license_token_ids'' = Inr tokens \<and>
        licensed_ips (snd (license_external_ip E ip s)) =
          licensed_ips s @ [\<lparr>ip_id = ip, license_tokens = tokens,
                              licensed_at = utcnow E (clock_reads s)\<rparr>])"
  "fst (license_external_ip E ip s) = Inl e \<Longrightarrow>
     licensed_ips (snd (license_external_ip E ip s)) = licensed_ips s"
  by (auto simp: license_external_ip_def collaborator_def now_def split: sum.splits prod.splits)


lemma obtain_license_token_none:
  assumes "find (\<lambda>lic. ip_id lic = style) (licensed_ips s) = None"
  shows "calls (snd (obtain_license_token E style s)) =
           calls s @ [MintLicenseTokens style 1 (PStr (idol_id s))]"
    and "idol_id (snd (obtain_license_token E style s)) = idol_id s"
    and "created_derivatives (snd (obtain_license_token E style s)) = created_derivatives s"
    and "fst (obtain_license_token E style s) = Inr tok \<Longrightarrow>
           \<exists>lr tokens. respond E (calls s) (MintLicenseTokens style 1 (PStr (idol_id s))) = Inr lr \<and>
              subscript lr ''license_token_ids'' = Inr tokens \<and> first_item tokens = Inr tok"
    and "respond E (calls s) (MintLicenseTokens style 1 (PStr (idol_id s))) = Inr lr \<Longrightarrow>
         subscript lr ''license_token_ids'' = Inr tokens \<Longrightarrow>
           licensed_ips (snd (obtain_license_token E style s)) =
             licensed_ips s @ [\<lparr>ip_id = style, license_tokens = tokens,
                                 licensed_at = utcnow E (clock_reads s)\<rparr>]"
  using assms
  by (auto simp: obtain_license_token_def license_external_ip_def collaborator_def now_def
       split: sum.splits prod.splits)

lemma obtain_license_token_some:
  "find (\<lambda>lic. ip_id lic = style) (licensed_ips s) = Some lic \<Longrightarrow>
   obtain_license_token E style s = (first_item (license_tokens lic), s)"
  by (simp add: obtain_license_token_def)

lemma calls_since_self [simp]: "calls_since s s = []"
  by (simp add: calls_since_def)

lemma calls_since_append: "calls s' = calls s @ cs \<Longrightarrow> calls_since s s' = cs"
  by (simp add: calls_since_def)

lemma create_remix_unlicensed:
  assumes none: "find (\<lambda>lic. ip_id lic = style) (licensed_ips s) = None"
  shows "\<exists>extra. calls_since s (snd (create_remix E style s)) =
                    MintLicenseTokens style 1 (PStr (idol_id s)) # extra \<and>
           filter is_mint extra = [] \<and>
           (\<forall>p m toks. CreateDerivativeContent p m toks \<in> set extra \<longrightarrow>
              (\<exists>lr tokens tok.
                 respond E (calls s) (MintLicenseTokens style 1 (PStr (idol_id s))) = Inr lr \<and>
                 subscript lr ''license_token_ids'' = Inr tokens \<and>
                 first_item tokens = Inr tok \<and> toks = Some (PList [tok])))"
proof -
  obtain lt s1 where o: "obtain_license_token E style s = (lt, s1)"
    by (cases "obtain_license_token E style s")
  note on = obtain_license_token_none [OF none, of E]
  have c1: "calls s1 = calls s @ [MintLicenseTokens style 1 (PStr (idol_id s))]"
    using on(1) o by simp
  show ?thesis
  proof (cases lt)
    case (Inl e)
    with o have "create_remix E style s = (Inl e, s1)" by (simp add: create_remix_no_token)
    with c1 show ?thesis by (simp add: calls_since_def)
  next
    case (Inr tok)
    with o have o': "obtain_license_token E style s = (Inr tok, s1)" by simp
    note wt = create_remix_with_token [OF o']
    let ?s' = "snd (create_remix E style s)"
    have "calls ?s' = take (length (calls s1)) (calls ?s') @ drop (length (calls s1)) (calls ?s')"
      by simp
    with wt(1) have split: "calls ?s' = calls s1 @ calls_since s1 ?s'"
      by (simp add: calls_since_def)
    have "calls ?s' =
            calls s @ (MintLicenseTokens style 1 (PStr (idol_id s)) # calls_since s1 ?s')"
      using split c1 by simp
    then have cs: "calls_since s ?s' =
                MintLicenseTokens style 1 (PStr (idol_id s)) # calls_since s1 ?s'"
      by (rule calls_since_append)
    from on(4) [of tok] o' obtain lr tokens where
      m: "respond E (calls s) (MintLicenseTokens style 1 (PStr (idol_id s))) = Inr lr"
         "subscript lr ''license_token_ids'' = Inr tokens" "first_item tokens = Inr tok"
      by auto
    show ?thesis using cs wt(4) wt(5) m by blast
  qed
qed

lemma create_remix_licensed:
  assumes some: "find (\<lambda>lic. ip_id lic = style) (licensed_ips s) = Some lic"
  shows "filter is_mint (calls_since s (snd (create_remix E style s))) = []"
    and "CreateDerivativeContent p m toks \<in> set (calls_since s (snd (create_remix E style s)))
         \<Longrightarrow> \<exists>tok. first_item (license_tokens lic) = Inr tok \<and> toks = Some (PList [tok])"
proof -
  note o = obtain_license_token_some [OF some, of E]
  show "filter is_mint (calls_since s (snd (create_remix E style s))) = []"
  proof (cases "first_item (license_tokens lic)")
    case (Inl e)
    with o show ?thesis by (simp add: create_remix_no_token)
  next
    case (Inr tok)
    with o create_remix_with_token(4) [of E style s tok s] show ?thesis by simp
  qed
  show "CreateDerivativeContent p m toks \<in> set (calls_since s (snd (create_remix E style s)))
         \<Longrightarrow> \<exists>tok. first_item (license_tokens lic) = Inr tok \<and> toks = Some (PList [tok])"
  proof (cases "first_item (license_tokens lic)")
    case (Inl e)
    assume "CreateDerivativeContent p m toks \<in> set (calls_since s (snd (create_remix E style s)))"
    with Inl o show ?thesis by (simp add: create_remix_no_token)
  next
    case (Inr tok)
    assume "CreateDerivativeContent p m toks \<in> set (calls_since s (snd (create_remix E style s)))"
    with Inr o create_remix_with_token(5) [of E style s tok s p m toks] show ?thesis by simp
  qed
qed

section \<open>Evaluation and further helper facts\<close>

lemmas exec_defs =
  stub_agent_def stub_env_def stub_respond_def new_idol_agent_def start_def stop_def
  add_task_def loop_step_def process_next_def timeout_def keep_last_100_def
  execute_task_def dispatch_def error_result_def wrap_success_def
  generate_content_task_def license_ip_task_def create_remix_task_def claim_royalties_task_def
  generate_content_def license_external_ip_def obtain_license_token_def create_remix_def
  claim_accumulated_royalties_def collaborator_def now_def random_choice_def dict_get_def
  get_metrics_def calls_since_def is_mint_def Let_def

lemma process_next_evicts_oldest:
  assumes q: "tasks_queue s = tsk # rest" and l: "length (execution_history s) = 100"
  shows "\<exists>e. task e = tsk \<and>
           execution_history (process_next E s) = tl (execution_history s) @ [e]"
proof -
  from process_next_cons [OF q, of E] obtain res s1 where
    pn: "process_next E s =
           s1\<lparr>clock_reads := Suc (clock_reads s1),
              last_activity := Some (utcnow E (clock_reads s1)),
              execution_history := last100 (execution_history s @
                 [\<lparr>task = tsk, result = res, timestamp = utcnow E (clock_reads s1)\<rparr>]),
              loop := AtTop\<rparr>" by blast
  have "last100 (execution_history s @
           [\<lparr>task = tsk, result = res, timestamp = utcnow E (clock_reads s1)\<rparr>]) =
        tl (execution_history s) @
           [\<lparr>task = tsk, result = res, timestamp = utcnow E (clock_reads s1)\<rparr>]"
    using l by (cases "execution_history s") (simp_all add: last100_def)
  with pn show ?thesis by simp
qed

lemma last_last100: "xs \<noteq> [] \<Longrightarrow> last (last100 xs) = last xs"
  by (simp add: last100_def)

lemma exit_only_when_inactive:
  assumes "loop (step E ev s) = Exited"
  shows "loop s = Exited \<or> (ev = LoopStep \<and> loop s = AtTop \<and> \<not> is_active s)"
proof (cases ev)
  case LoopStep
  show ?thesis
  proof (cases "tasks_queue s")
    case Nil
    with assms LoopStep show ?thesis
      by (auto simp: loop_step_def split: loop_pc.splits if_splits)
  next
    case (Cons tsk rest)
    from process_next_fields(3) [OF Cons, of E] assms LoopStep show ?thesis
      by (auto simp: loop_step_def split: loop_pc.splits if_splits)
  qed
qed (use assms in \<open>auto simp: stop_def add_task_def timeout_def Let_def
        split: sum.splits loop_pc.splits\<close>)

lemma find_snoc_new:
  "find P xs = None \<Longrightarrow> P x \<Longrightarrow> find P (xs @ [x]) = Some x"
  by (induction xs) (auto split: if_splits)

lemma execute_create_remix_failure:
  assumes "dict_get tsk ''type'' = PStr ''create_remix''"
    and "dict_get tsk ''style_ip_id'' = style"
    and "fst (create_remix E style s) = Inl e"
  shows "execute_task E tsk s = (Inr (error_result E e), snd (create_remix E style s))"
  using assms
  by (cases "create_remix E style s")
     (simp add: execute_task_def dispatch_def create_remix_task_def wrap_success_def)

section \<open>The claims\<close>

text \<open>
  C1. Started on a new agent, with any tasks enqueued before and whatever happens after,
  the execution history never holds more than 100 entries. With 101 tasks enqueued and
  101 iterations run, the history holds the tasks 2 to 101, in their order. An iteration
  that appends to a full history drops its oldest entry and keeps the others in order.
\<close>

theorem history_never_exceeds_100:
  "length (execution_history (run E evs
      (start E (run E (map AddTask ts) (new_idol_agent E idol md strategy))))) \<le> 100 \<and>
   (length ts = 100 \<longrightarrow>
      map task (execution_history (run E (replicate 101 LoopStep)
        (start E (run E (map AddTask (t1 # ts)) (new_idol_agent E idol md strategy))))) = ts) \<and>
   (tasks_queue s = tsk # rest \<and> length (execution_history s) = 100 \<longrightarrow>
      (\<exists>e. task e = tsk \<and>
         execution_history (process_next E s) = tl (execution_history s) @ [e]))"
proof (intro conjI)
  show "length (execution_history (run E evs
      (start E (run E (map AddTask ts) (new_idol_agent E idol md strategy))))) \<le> 100"
    by (rule run_history_bound) (simp add: start_fields run_add_tasks new_idol_agent_fields)
next
  show "length ts = 100 \<longrightarrow>
      map task (execution_history (run E (replicate 101 LoopStep)
        (start E (run E (map AddTask (t1 # ts)) (new_idol_agent E idol md strategy))))) = ts"
  proof
    assume l: "length ts = 100"
    then have "101 \<le> length (t1 # ts)" by simp
    from drained_start(2) [OF this, of E idol md strategy] l
    show "map task (execution_history (run E (replicate 101 LoopStep)
        (start E (run E (map AddTask (t1 # ts)) (new_idol_agent E idol md strategy))))) = ts"
      by (simp add: last100_def)
  qed
next
  show "tasks_queue s = tsk # rest \<and> length (execution_history s) = 100 \<longrightarrow>
      (\<exists>e. task e = tsk \<and>
         execution_history (process_next E s) = tl (execution_history s) @ [e])"
    using process_next_evicts_oldest [of s tsk rest E] by blast
qed

text \<open>
  The witness for C1: one \<open>license_ip\<close> task followed by 100 \<open>claim_royalties\<close>
  tasks, and an agent whose history is full.
\<close>

theorem history_never_exceeds_100_witness:
  "length (replicate 100 [(''type'', PStr ''claim_royalties'')]) = 100 \<and>
   map task (execution_history (run stub_env (replicate 101 LoopStep)
     (start stub_env (run stub_env
        (map AddTask ([(''type'', PStr ''license_ip'')] #
                      replicate 100 [(''type'', PStr ''claim_royalties'')]))
        (new_idol_agent stub_env ''0xA1'' [] []))))) =
     replicate 100 [(''type'', PStr ''claim_royalties'')] \<and>
   tasks_queue (stub_agent\<lparr>tasks_queue := [[(''type'', PStr ''license_ip'')]],
        execution_history := replicate 100
          \<lparr>task = [], result = PNone, timestamp = 0\<rparr>\<rparr>) = [(''type'', PStr ''license_ip'')] # [] \<and>
   length (execution_history (stub_agent\<lparr>tasks_queue := [[(''type'', PStr ''license_ip'')]],
        execution_history := replicate 100
          \<lparr>task = [], result = PNone, timestamp = 0\<rparr>\<rparr>)) = 100 \<and>
   (\<exists>e. task e = [(''type'', PStr ''license_ip'')] \<and>
      execution_history (process_next stub_env
        (stub_agent\<lparr>tasks_queue := [[(''type'', PStr ''license_ip'')]],
           execution_history := replicate 100 \<lparr>task = [], result = PNone, timestamp = 0\<rparr>\<rparr>)) =
      tl (execution_history (stub_agent\<lparr>tasks_queue := [[(''type'', PStr ''license_ip'')]],
           execution_history := replicate 100 \<lparr>task = [], result = PNone, timestamp = 0\<rparr>\<rparr>)) @ [e])"
proof -
  have h1: "length (replicate 100 [(''type'', PStr ''claim_royalties'')]) = 100" by simp
  have h2: "tasks_queue (stub_agent\<lparr>tasks_queue := [[(''type'', PStr ''license_ip'')]],
        execution_history := replicate 100
          \<lparr>task = [], result = PNone, timestamp = 0\<rparr>\<rparr>) = [(''type'', PStr ''license_ip'')] # []"
    by simp
  have h3: "length (execution_history (stub_agent\<lparr>tasks_queue := [[(''type'', PStr ''license_ip'')]],
        execution_history := replicate 100
          \<lparr>task = [], result = PNone, timestamp = 0\<rparr>\<rparr>)) = 100" by simp
  note t = history_never_exceeds_100 [of stub_env "[]"
      "replicate 100 [(''type'', PStr ''claim_royalties'')]" "''0xA1''" "[]" "[]"
      "[(''type'', PStr ''license_ip'')]"
      "stub_agent\<lparr>tasks_queue := [[(''type'', PStr ''license_ip'')]],
        execution_history := replicate 100 \<lparr>task = [], result = PNone, timestamp = 0\<rparr>\<rparr>"
      "[(''type'', PStr ''license_ip'')]" "[]"]
  from t h1 h2 h3 show ?thesis by blast
qed

text \<open>
  C2, as amended, for an agent with one loop (\<open>start\<close> was never called beside a loop
  that was still running). Once \<open>stop\<close> has been called, a loop that is not suspended in
  its dequeue attempt takes no further task: whatever is enqueued afterwards stays in the
  queue, behind what was pending, and the history does not change. A loop that is
  suspended in \<open>wait_for(get)\<close> when \<open>stop\<close> is called reads the flag only after that
  attempt, so it may still take one task, and never more than one. In every case
  \<open>tasks_in_queue\<close> is the length of the queue, and the agent still has one loop.
\<close>

theorem no_dequeue_once_stopped:
  "untraced_loops s = 0 \<Longrightarrow>
   untraced_loops (run E evs (stop s)) = 0 \<and>
   (loop s \<noteq> Waiting \<longrightarrow>
      tasks_queue (run E evs (stop s)) = tasks_queue s @ added_tasks evs \<and>
      execution_history (run E evs (stop s)) = execution_history s) \<and>
   (tasks_queue (run E evs (stop s)) = tasks_queue s @ added_tasks evs \<or>
    tasks_queue (run E evs (stop s)) = tl (tasks_queue s @ added_tasks evs)) \<and>
   m_tasks_in_queue (fst (get_metrics E (run E evs (stop s)))) =
     length (tasks_queue (run E evs (stop s)))"
proof -
  assume one: "untraced_loops s = 0"
  have a: "\<not> is_active (stop s)" and l: "loop (stop s) = loop s"
    and q: "tasks_queue (stop s) = tasks_queue s"
    and h: "execution_history (stop s) = execution_history s"
    and u: "untraced_loops (stop s) = untraced_loops s"
    by (simp_all add: stop_def)
  have m: "m_tasks_in_queue (fst (get_metrics E (run E evs (stop s)))) =
     length (tasks_queue (run E evs (stop s)))"
    by (simp add: get_metrics_def now_def)
  have n: "untraced_loops (run E evs (stop s)) = 0"
    using one u by (simp add: run_untraced_loops)
  show ?thesis
    using stopped_run [OF a, of E evs] stopped_run_at_most_one [OF a, of E evs] l q h m n
    by simp
qed

text \<open>
  The witness for C2: the agent is stopped right after \<open>start\<close>, a task is enqueued
  and the loop is scheduled twice.
\<close>

theorem no_dequeue_once_stopped_witness:
  "untraced_loops (start stub_env stub_agent) = 0 \<and>
   loop (start stub_env stub_agent) \<noteq> Waiting \<and>
   tasks_queue (run stub_env [AddTask [(''type'', PStr ''claim_royalties'')], LoopStep, LoopStep]
                  (stop (start stub_env stub_agent))) =
     [[(''type'', PStr ''claim_royalties'')]] \<and>
   execution_history (run stub_env [AddTask [(''type'', PStr ''claim_royalties'')], LoopStep, LoopStep]
                  (stop (start stub_env stub_agent))) = [] \<and>
   m_tasks_in_queue (fst (get_metrics stub_env
      (run stub_env [AddTask [(''type'', PStr ''claim_royalties'')], LoopStep, LoopStep]
                  (stop (start stub_env stub_agent))))) = 1"
proof -
  have o: "untraced_loops (start stub_env stub_agent) = 0"
    by (simp add: start_fields stub_agent_def new_idol_agent_fields)
  have h: "loop (start stub_env stub_agent) \<noteq> Waiting"
    by (simp add: start_fields stub_agent_def new_idol_agent_fields)
  have q: "tasks_queue (start stub_env stub_agent) = []"
    and e: "execution_history (start stub_env stub_agent) = []"
    by (simp_all add: start_fields stub_agent_def new_idol_agent_fields)
  from no_dequeue_once_stopped [OF o, of stub_env
          "[AddTask [(''type'', PStr ''claim_royalties'')], LoopStep, LoopStep]"] o h q e
  show ?thesis by simp
qed

text \<open>
  The counterexample for C2 as stated, on an agent started once: the loop is suspended
  on the empty queue, \<open>stop\<close> is called, a task is enqueued, and the loop dequeues and
  executes it.
\<close>

theorem dequeue_after_stop_counterexample:
  "untraced_loops (run stub_env [LoopStep] (start stub_env stub_agent)) = 0 \<and>
   loop (run stub_env [LoopStep] (start stub_env stub_agent)) = Waiting \<and>
   tasks_queue (run stub_env [AddTask [(''type'', PStr ''claim_royalties'')], LoopStep]
      (stop (run stub_env [LoopStep] (start stub_env stub_agent)))) = [] \<and>
   map task (execution_history
     (run stub_env [AddTask [(''type'', PStr ''claim_royalties'')], LoopStep]
        (stop (run stub_env [LoopStep] (start stub_env stub_agent))))) =
     [[(''type'', PStr ''claim_royalties'')]] \<and>
   map result (execution_history
     (run stub_env [AddTask [(''type'', PStr ''claim_royalties'')], LoopStep]
        (stop (run stub_env [LoopStep] (start stub_env stub_agent))))) =
     [PDict [(''status'', PStr ''success''),
             (''royalties'', PDict [(''status'', PStr ''no_derivatives''), (''claimed'', PInt 0)])]]"
  by (simp add: exec_defs)

text \<open>
  C3. When the handler of the task at the head of the queue raises, \<open>execute_task\<close>
  returns the record \<open>{"status": "error", "error": str(e)}\<close>, the iteration records it
  as the newest history entry, and the loop is back at its test with the flag unchanged.
  The loop returns only from its test, and only with the flag false.
\<close>

theorem handler_failure_keeps_loop_running:
  assumes q: "tasks_queue s = tsk # rest"
    and pc: "loop s = Waiting \<or> (loop s = AtTop \<and> is_active s)"
    and fails: "fst (dispatch E tsk (s\<lparr>tasks_queue := rest\<rparr>)) = Inl e"
  shows "fst (execute_task E tsk (s\<lparr>tasks_queue := rest\<rparr>)) =
           Inr (PDict [(''status'', PStr ''error''), (''error'', PStr (exn_str E e))]) \<and>
         loop (loop_step E s) = AtTop \<and>
         is_active (loop_step E s) = is_active s \<and>
         tasks_queue (loop_step E s) = rest \<and>
         (\<exists>t. last (execution_history (loop_step E s)) =
            \<lparr>task = tsk,
             result = PDict [(''status'', PStr ''error''), (''error'', PStr (exn_str E e))],
             timestamp = t\<rparr>) \<and>
         (loop (step E ev s') = Exited \<longrightarrow>
            loop s' = Exited \<or> (ev = LoopStep \<and> loop s' = AtTop \<and> \<not> is_active s'))"
proof -
  have ex: "fst (execute_task E tsk (s\<lparr>tasks_queue := rest\<rparr>)) =
           Inr (PDict [(''status'', PStr ''error''), (''error'', PStr (exn_str E e))])"
    using fails
    by (cases "dispatch E tsk (s\<lparr>tasks_queue := rest\<rparr>)")
       (simp add: execute_task_def error_result_def)
  have ls: "loop_step E s = process_next E s"
    using q pc by (auto simp: loop_step_def)
  note pf = process_next_fields [OF q, of E]
  from process_next_cons [OF q, of E] obtain res s1 where
    e1: "execute_task E tsk (s\<lparr>tasks_queue := rest\<rparr>) = (Inr res, s1)" and
    pn: "process_next E s =
           s1\<lparr>clock_reads := Suc (clock_reads s1),
              last_activity := Some (utcnow E (clock_reads s1)),
              execution_history := last100 (execution_history s @
                 [\<lparr>task = tsk, result = res, timestamp = utcnow E (clock_reads s1)\<rparr>]),
              loop := AtTop\<rparr>" by blast
  from ex e1 have res: "res = PDict [(''status'', PStr ''error''), (''error'', PStr (exn_str E e))]"
    by simp
  have "last (execution_history (loop_step E s)) =
          \<lparr>task = tsk, result = res, timestamp = utcnow E (clock_reads s1)\<rparr>"
    using ls pn by (simp add: last_last100)
  with res have h: "\<exists>t. last (execution_history (loop_step E s)) =
            \<lparr>task = tsk,
             result = PDict [(''status'', PStr ''error''), (''error'', PStr (exn_str E e))],
             timestamp = t\<rparr>" by blast
  from ex ls pf(1,2,3) h exit_only_when_inactive [of E ev s'] show ?thesis by auto
qed

text \<open>
  The witness for C3: a \<open>license_ip\<close> task whose mint the collaborator refuses, and
  a stopped agent whose loop then exits.
\<close>

theorem handler_failure_keeps_loop_running_witness:
  "tasks_queue ((start stub_env stub_agent)
      \<lparr>tasks_queue := [[(''type'', PStr ''license_ip''), (''target_ip_id'', PStr ''unlicensable'')]]\<rparr>) =
     [(''type'', PStr ''license_ip''), (''target_ip_id'', PStr ''unlicensable'')] # [] \<and>
   loop ((start stub_env stub_agent)
      \<lparr>tasks_queue := [[(''type'', PStr ''license_ip''), (''target_ip_id'', PStr ''unlicensable'')]]\<rparr>) = AtTop \<and>
   is_active ((start stub_env stub_agent)
      \<lparr>tasks_queue := [[(''type'', PStr ''license_ip''), (''target_ip_id'', PStr ''unlicensable'')]]\<rparr>) \<and>
   fst (dispatch stub_env [(''type'', PStr ''license_ip''), (''target_ip_id'', PStr ''unlicensable'')]
     (start stub_env stub_agent)) = Inl (CollaboratorError ''mint reverted'') \<and>
   loop (loop_step stub_env ((start stub_env stub_agent)
      \<lparr>tasks_queue := [[(''type'', PStr ''license_ip''), (''target_ip_id'', PStr ''unlicensable'')]]\<rparr>)) = AtTop \<and>
   map result (execution_history (loop_step stub_env ((start stub_env stub_agent)
      \<lparr>tasks_queue := [[(''type'', PStr ''license_ip''), (''target_ip_id'', PStr ''unlicensable'')]]\<rparr>))) =
     [PDict [(''status'', PStr ''error''), (''error'', PStr ''mint reverted'')]] \<and>
   loop (step stub_env LoopStep (stop (start stub_env stub_agent))) = Exited \<and>
   \<not> is_active (stop (start stub_env stub_agent))"
proof -
  let ?tsk = "[(''type'', PStr ''license_ip''), (''target_ip_id'', PStr ''unlicensable'')]"
  let ?s = "(start stub_env stub_agent)\<lparr>tasks_queue := [?tsk]\<rparr>"
  have h1: "tasks_queue ?s = ?tsk # []" by simp
  have l: "loop ?s = AtTop" and a: "is_active ?s"
    by (simp_all add: start_fields stub_agent_def new_idol_agent_fields)
  then have h2: "loop ?s = Waiting \<or> (loop ?s = AtTop \<and> is_active ?s)" by simp
  have st: "?s\<lparr>tasks_queue := []\<rparr> = start stub_env stub_agent"
    by (simp add: exec_defs)
  have d: "fst (dispatch stub_env ?tsk (start stub_env stub_agent)) =
             Inl (CollaboratorError ''mint reverted'')"
    by (simp add: exec_defs)
  with st have h3: "fst (dispatch stub_env ?tsk (?s\<lparr>tasks_queue := []\<rparr>)) =
             Inl (CollaboratorError ''mint reverted'')" by simp
  have x: "loop (step stub_env LoopStep (stop (start stub_env stub_agent))) = Exited"
    by (simp add: exec_defs)
  have m: "map result (execution_history (loop_step stub_env ?s)) =
     [PDict [(''status'', PStr ''error''), (''error'', PStr ''mint reverted'')]]"
    by (simp add: exec_defs)
  from handler_failure_keeps_loop_running [OF h1 h2 h3, of LoopStep "stop (start stub_env stub_agent)"] x
  have c: "loop (loop_step stub_env ?s) = AtTop"
    and n: "\<not> is_active (stop (start stub_env stub_agent))"
    by (simp_all add: start_fields stop_def)
  from h1 l a d c m x n show ?thesis by (intro conjI)
qed

text \<open>
  C4. With no derivative tracked, \<open>claim_accumulated_royalties\<close> returns
  \<open>{"status": "no_derivatives", "claimed": 0}\<close>, changes nothing and calls no
  collaborator. Otherwise it makes exactly one call, a royalty claim for the idol's IP
  with the \<open>ip_id\<close> of every tracked derivative as children, and its outcome is that
  call's outcome.
\<close>

theorem claim_accumulated_royalties_cases:
  "(created_derivatives s = [] \<longrightarrow>
      claim_accumulated_royalties E s =
        (Inr (PDict [(''status'', PStr ''no_derivatives''), (''claimed'', PInt 0)]), s) \<and>
      calls_since s (snd (claim_accumulated_royalties E s)) = []) \<and>
   (created_derivatives s \<noteq> [] \<longrightarrow>
      calls_since s (snd (claim_accumulated_royalties E s)) =
        [ClaimRoyalties (PStr (idol_id s)) (PList (map d_ip_id (created_derivatives s)))] \<and>
      fst (claim_accumulated_royalties E s) =
        respond E (calls s)
          (ClaimRoyalties (PStr (idol_id s)) (PList (map d_ip_id (created_derivatives s)))) \<and>
      snd (claim_accumulated_royalties E s) =
        s\<lparr>calls := calls s @
             [ClaimRoyalties (PStr (idol_id s)) (PList (map d_ip_id (created_derivatives s)))]\<rparr>)"
  by (simp add: claim_accumulated_royalties_def collaborator_def calls_since_def)

text \<open>
  The witness for C4: the new agent, and the same agent with two derivatives.
\<close>

theorem claim_accumulated_royalties_cases_witness:
  "created_derivatives stub_agent = [] \<and>
   claim_accumulated_royalties stub_env stub_agent =
     (Inr (PDict [(''status'', PStr ''no_derivatives''), (''claimed'', PInt 0)]), stub_agent) \<and>
   created_derivatives (stub_agent\<lparr>created_derivatives :=
      [\<lparr>d_ip_id = PStr ''d1'', d_content_type = PStr ''image'', d_created_at = 5,
        d_style_ip = None, d_metadata = Some (PDict [])\<rparr>,
       \<lparr>d_ip_id = PStr ''d2'', d_content_type = PStr ''remix'', d_created_at = 7,
        d_style_ip = Some (PStr ''0xS1''), d_metadata = None\<rparr>]\<rparr>) \<noteq> [] \<and>
   calls_since (stub_agent\<lparr>created_derivatives :=
      [\<lparr>d_ip_id = PStr ''d1'', d_content_type = PStr ''image'', d_created_at = 5,
        d_style_ip = None, d_metadata = Some (PDict [])\<rparr>,
       \<lparr>d_ip_id = PStr ''d2'', d_content_type = PStr ''remix'', d_created_at = 7,
        d_style_ip = Some (PStr ''0xS1''), d_metadata = None\<rparr>]\<rparr>)
     (snd (claim_accumulated_royalties stub_env (stub_agent\<lparr>created_derivatives :=
      [\<lparr>d_ip_id = PStr ''d1'', d_content_type = PStr ''image'', d_created_at = 5,
        d_style_ip = None, d_metadata = Some (PDict [])\<rparr>,
       \<lparr>d_ip_id = PStr ''d2'', d_content_type = PStr ''remix'', d_created_at = 7,
        d_style_ip = Some (PStr ''0xS1''), d_metadata = None\<rparr>]\<rparr>))) =
     [ClaimRoyalties (PStr ''0xA1'') (PList [PStr ''d1'', PStr ''d2''])] \<and>
   fst (claim_accumulated_royalties stub_env (stub_agent\<lparr>created_derivatives :=
      [\<lparr>d_ip_id = PStr ''d1'', d_content_type = PStr ''image'', d_created_at = 5,
        d_style_ip = None, d_metadata = Some (PDict [])\<rparr>,
       \<lparr>d_ip_id = PStr ''d2'', d_content_type = PStr ''remix'', d_created_at = 7,
        d_style_ip = Some (PStr ''0xS1''), d_metadata = None\<rparr>]\<rparr>)) =
     Inr (PDict [(''claimed_amount'', PInt 5)])"
proof -
  let ?s2 = "stub_agent\<lparr>created_derivatives :=
      [\<lparr>d_ip_id = PStr ''d1'', d_content_type = PStr ''image'', d_created_at = 5,
        d_style_ip = None, d_metadata = Some (PDict [])\<rparr>,
       \<lparr>d_ip_id = PStr ''d2'', d_content_type = PStr ''remix'', d_created_at = 7,
        d_style_ip = Some (PStr ''0xS1''), d_metadata = None\<rparr>]\<rparr>"
  have h1: "created_derivatives stub_agent = []"
    by (simp add: stub_agent_def new_idol_agent_def)
  have h2: "created_derivatives ?s2 \<noteq> []" by simp
  have i: "idol_id ?s2 = ''0xA1''" "calls ?s2 = []"
    by (simp_all add: stub_agent_def new_idol_agent_def)
  have r: "respond stub_env [] (ClaimRoyalties (PStr ''0xA1'') (PList [PStr ''d1'', PStr ''d2''])) =
             Inr (PDict [(''claimed_amount'', PInt 5)])"
    by (simp add: stub_env_def stub_respond_def)
  from claim_accumulated_royalties_cases [of stub_agent stub_env] h1
  have c1: "claim_accumulated_royalties stub_env stub_agent =
     (Inr (PDict [(''status'', PStr ''no_derivatives''), (''claimed'', PInt 0)]), stub_agent)"
    by blast
  from claim_accumulated_royalties_cases [of ?s2 stub_env] h2
  have a: "calls_since ?s2 (snd (claim_accumulated_royalties stub_env ?s2)) =
        [ClaimRoyalties (PStr (idol_id ?s2)) (PList (map d_ip_id (created_derivatives ?s2)))]"
    and b: "fst (claim_accumulated_royalties stub_env ?s2) =
        respond stub_env (calls ?s2)
          (ClaimRoyalties (PStr (idol_id ?s2)) (PList (map d_ip_id (created_derivatives ?s2))))"
    by blast+
  from a i have c2: "calls_since ?s2 (snd (claim_accumulated_royalties stub_env ?s2)) =
     [ClaimRoyalties (PStr ''0xA1'') (PList [PStr ''d1'', PStr ''d2''])]" by simp
  from b i r have c3: "fst (claim_accumulated_royalties stub_env ?s2) =
     Inr (PDict [(''claimed_amount'', PInt 5)])" by simp
  from h1 c1 h2 c2 c3 show ?thesis by (intro conjI)
qed

text \<open>
  C5. \<open>create_remix\<close> on a style IP without an entry in \<open>licensed_ips\<close> makes
  exactly one mint call, as its first call, and a derivative registration it makes
  carries the first token of that mint's answer. On a style IP with an entry it makes no
  mint call, and a registration carries the first token of the first matching entry.
\<close>

theorem create_remix_license_calls:
  "(find (\<lambda>lic. ip_id lic = style) (licensed_ips s) = None \<longrightarrow>
      length (filter is_mint (calls_since s (snd (create_remix E style s)))) = 1 \<and>
      hd (calls_since s (snd (create_remix E style s))) =
        MintLicenseTokens style 1 (PStr (idol_id s)) \<and>
      (\<forall>p m toks.
         CreateDerivativeContent p m toks \<in> set (calls_since s (snd (create_remix E style s))) \<longrightarrow>
         (\<exists>lr tokens tok.
            respond E (calls s) (MintLicenseTokens style 1 (PStr (idol_id s))) = Inr lr \<and>
            subscript lr ''license_token_ids'' = Inr tokens \<and>
            first_item tokens = Inr tok \<and> toks = Some (PList [tok])))) \<and>
   (find (\<lambda>lic. ip_id lic = style) (licensed_ips s) = Some lic \<longrightarrow>
      filter is_mint (calls_since s (snd (create_remix E style s))) = [] \<and>
      (\<forall>p m toks.
         CreateDerivativeContent p m toks \<in> set (calls_since s (snd (create_remix E style s))) \<longrightarrow>
         (\<exists>tok. first_item (license_tokens lic) = Inr tok \<and> toks = Some (PList [tok]))))"
proof (intro conjI impI)
  assume none: "find (\<lambda>lic. ip_id lic = style) (licensed_ips s) = None"
  from create_remix_unlicensed [OF none, of E] obtain extra where
    e: "calls_since s (snd (create_remix E style s)) =
          MintLicenseTokens style 1 (PStr (idol_id s)) # extra"
       "filter is_mint extra = []"
       "\<forall>p m toks. CreateDerivativeContent p m toks \<in> set extra \<longrightarrow>
              (\<exists>lr tokens tok.
                 respond E (calls s) (MintLicenseTokens style 1 (PStr (idol_id s))) = Inr lr \<and>
                 subscript lr ''license_token_ids'' = Inr tokens \<and>
                 first_item tokens = Inr tok \<and> toks = Some (PList [tok]))"
    by blast
  show "length (filter is_mint (calls_since s (snd (create_remix E style s)))) = 1"
    using e(1,2) by (simp add: is_mint_def)
  show "hd (calls_since s (snd (create_remix E style s))) =
        MintLicenseTokens style 1 (PStr (idol_id s))"
    using e(1) by simp
  show "\<forall>p m toks.
         CreateDerivativeContent p m toks \<in> set (calls_since s (snd (create_remix E style s))) \<longrightarrow>
         (\<exists>lr tokens tok.
            respond E (calls s) (MintLicenseTokens style 1 (PStr (idol_id s))) = Inr lr \<and>
            subscript lr ''license_token_ids'' = Inr tokens \<and>
            first_item tokens = Inr tok \<and> toks = Some (PList [tok]))"
    using e(1,3) by simp
next
  assume some: "find (\<lambda>lic. ip_id lic = style) (licensed_ips s) = Some lic"
  show "filter is_mint (calls_since s (snd (create_remix E style s))) = []"
    by (rule create_remix_licensed(1) [OF some])
  show "\<forall>p m toks.
         CreateDerivativeContent p m toks \<in> set (calls_since s (snd (create_remix E style s))) \<longrightarrow>
         (\<exists>tok. first_item (license_tokens lic) = Inr tok \<and> toks = Some (PList [tok]))"
    using create_remix_licensed(2) [OF some] by blast
qed

text \<open>
  The witness for C5, with the calls of both runs written out.
\<close>

theorem create_remix_license_calls_witness:
  "find (\<lambda>lic. ip_id lic = PStr ''0xS1'') (licensed_ips (start stub_env stub_agent)) = None \<and>
   length (filter is_mint (calls_since (start stub_env stub_agent)
      (snd (create_remix stub_env (PStr ''0xS1'') (start stub_env stub_agent))))) = 1 \<and>
   calls_since (start stub_env stub_agent)
      (snd (create_remix stub_env (PStr ''0xS1'') (start stub_env stub_agent))) =
     [MintLicenseTokens (PStr ''0xS1'') 1 (PStr ''0xA1''),
      ApplyStyle (PStr ''0xA1'') (PStr ''0xS1''),
      UploadJson (PDict []),
      CreateDerivativeContent (PStr ''0xA1'')
        (PDict [(''child_ip_id'', PStr ''remix-1''), (''metadata_uri'', PStr ''ipfs://Qm1''),
                (''nft_metadata_uri'', PStr ''ipfs://Qm1'')])
        (Some (PList [PStr ''token-1'']))] \<and>
   find (\<lambda>lic. ip_id lic = PStr ''0xS1'')
     (licensed_ips (stub_agent\<lparr>licensed_ips :=
        [\<lparr>ip_id = PStr ''0xS1'', license_tokens = PList [PStr ''token-9''], licensed_at = 0\<rparr>]\<rparr>)) =
     Some \<lparr>ip_id = PStr ''0xS1'', license_tokens = PList [PStr ''token-9''], licensed_at = 0\<rparr> \<and>
   filter is_mint (calls_since
     (stub_agent\<lparr>licensed_ips :=
        [\<lparr>ip_id = PStr ''0xS1'', license_tokens = PList [PStr ''token-9''], licensed_at = 0\<rparr>]\<rparr>)
     (snd (create_remix stub_env (PStr ''0xS1'')
        (stub_agent\<lparr>licensed_ips :=
           [\<lparr>ip_id = PStr ''0xS1'', license_tokens = PList [PStr ''token-9''],
             licensed_at = 0\<rparr>]\<rparr>)))) = [] \<and>
   calls_since
     (stub_agent\<lparr>licensed_ips :=
        [\<lparr>ip_id = PStr ''0xS1'', license_tokens = PList [PStr ''token-9''], licensed_at = 0\<rparr>]\<rparr>)
     (snd (create_remix stub_env (PStr ''0xS1'')
        (stub_agent\<lparr>licensed_ips :=
           [\<lparr>ip_id = PStr ''0xS1'', license_tokens = PList [PStr ''token-9''],
             licensed_at = 0\<rparr>]\<rparr>))) =
     [ApplyStyle (PStr ''0xA1'') (PStr ''0xS1''),
      UploadJson (PDict []),
      CreateDerivativeContent (PStr ''0xA1'')
        (PDict [(''child_ip_id'', PStr ''remix-1''), (''metadata_uri'', PStr ''ipfs://Qm1''),
                (''nft_metadata_uri'', PStr ''ipfs://Qm1'')])
        (Some (PList [PStr ''token-9'']))]"
proof -
  let ?s = "start stub_env stub_agent"
  let ?lic = "\<lparr>ip_id = PStr ''0xS1'', license_tokens = PList [PStr ''token-9''], licensed_at = 0\<rparr>"
  let ?s2 = "stub_agent\<lparr>licensed_ips := [?lic]\<rparr>"
  have h1: "find (\<lambda>lic. ip_id lic = PStr ''0xS1'') (licensed_ips ?s) = None"
    by (simp add: exec_defs)
  have h2: "find (\<lambda>lic. ip_id lic = PStr ''0xS1'') (licensed_ips ?s2) = Some ?lic"
    by simp
  from create_remix_license_calls [of "PStr ''0xS1''" ?s stub_env ?lic] h1
  have c1: "length (filter is_mint (calls_since ?s
      (snd (create_remix stub_env (PStr ''0xS1'') ?s)))) = 1" by blast
  from create_remix_license_calls [of "PStr ''0xS1''" ?s2 stub_env ?lic] h2
  have c2: "filter is_mint (calls_since ?s2
      (snd (create_remix stub_env (PStr ''0xS1'') ?s2))) = []" by blast
  have e1: "calls_since ?s (snd (create_remix stub_env (PStr ''0xS1'') ?s)) =
     [MintLicenseTokens (PStr ''0xS1'') 1 (PStr ''0xA1''),
      ApplyStyle (PStr ''0xA1'') (PStr ''0xS1''),
      UploadJson (PDict []),
      CreateDerivativeContent (PStr ''0xA1'')
        (PDict [(''child_ip_id'', PStr ''remix-1''), (''metadata_uri'', PStr ''ipfs://Qm1''),
                (''nft_metadata_uri'', PStr ''ipfs://Qm1'')])
        (Some (PList [PStr ''token-1'']))]"
    by (simp add: exec_defs)
  have e2: "calls_since ?s2 (snd (create_remix stub_env (PStr ''0xS1'') ?s2)) =
     [ApplyStyle (PStr ''0xA1'') (PStr ''0xS1''),
      UploadJson (PDict []),
      CreateDerivativeContent (PStr ''0xA1'')
        (PDict [(''child_ip_id'', PStr ''remix-1''), (''metadata_uri'', PStr ''ipfs://Qm1''),
                (''nft_metadata_uri'', PStr ''ipfs://Qm1'')])
        (Some (PList [PStr ''token-9'']))]"
    by (simp add: exec_defs)
  from h1 c1 e1 h2 c2 e2 show ?thesis by (intro conjI)
qed

text \<open>
  C6. The claim fails on the code: for a task without \<open>type\<close>, \<open>add_task\<close>
  enqueues the task and then raises \<open>KeyError('type')\<close> while it formats its debug
  message.
\<close>

theorem add_task_missing_type_raises:
  "add_task [(''content_type'', PStr ''image'')] stub_agent =
     (Inl (KeyError (PStr ''type'')),
      stub_agent\<lparr>tasks_queue := [[(''content_type'', PStr ''image'')]]\<rparr>)"
  by (simp add: add_task_def stub_agent_def new_idol_agent_def)

text \<open>
  C7. For a task whose \<open>type\<close> is none of the four known ones, \<open>execute_task\<close>
  returns \<open>{"status": "error", "error": "Unknown task type: <type>"}\<close> and leaves the
  agent as it was; a missing \<open>type\<close> reads as \<open>None\<close>. For every task,
  \<open>execute_task\<close> returns a value and raises nothing.
\<close>

theorem execute_task_unknown_type:
  "(dict_get tsk ''type'' \<notin> {PStr ''generate_content'', PStr ''license_ip'',
                               PStr ''create_remix'', PStr ''claim_royalties''} \<longrightarrow>
      execute_task E tsk s =
        (Inr (PDict [(''status'', PStr ''error''),
                     (''error'', PStr (''Unknown task type: '' @ py_str E (dict_get tsk ''type'')))]),
         s)) \<and>
   (map_of tsk ''type'' = None \<longrightarrow>
      execute_task E tsk s =
        (Inr (PDict [(''status'', PStr ''error''),
                     (''error'', PStr ''Unknown task type: None'')]), s)) \<and>
   (\<exists>v. fst (execute_task E tsk s) = Inr v)"
proof (intro conjI impI)
  show "\<exists>v. fst (execute_task E tsk s) = Inr v" by (rule execute_task_returns)
qed (simp_all add: execute_task_def dispatch_def error_result_def dict_get_def)

text \<open>
  The witness for C7: an unknown type, and a task without \<open>type\<close>.
\<close>

theorem execute_task_unknown_type_witness:
  "dict_get [(''type'', PStr ''dance'')] ''type'' \<notin>
      {PStr ''generate_content'', PStr ''license_ip'', PStr ''create_remix'', PStr ''claim_royalties''} \<and>
   execute_task stub_env [(''type'', PStr ''dance'')] stub_agent =
     (Inr (PDict [(''status'', PStr ''error''), (''error'', PStr ''Unknown task type: dance'')]),
      stub_agent) \<and>
   map_of [(''content_type'', PStr ''image'')] ''type'' = None \<and>
   execute_task stub_env [(''content_type'', PStr ''image'')] stub_agent =
     (Inr (PDict [(''status'', PStr ''error''), (''error'', PStr ''Unknown task type: None'')]),
      stub_agent)"
proof -
  have h1: "dict_get [(''type'', PStr ''dance'')] ''type'' \<notin>
      {PStr ''generate_content'', PStr ''license_ip'', PStr ''create_remix'', PStr ''claim_royalties''}"
    and v: "dict_get [(''type'', PStr ''dance'')] ''type'' = PStr ''dance''"
    by (simp_all add: dict_get_def)
  have h2: "map_of [(''content_type'', PStr ''image'')] ''type'' = None" by simp
  from execute_task_unknown_type [of "[(''type'', PStr ''dance'')]" stub_env stub_agent] h1 v
  have c1: "execute_task stub_env [(''type'', PStr ''dance'')] stub_agent =
     (Inr (PDict [(''status'', PStr ''error''), (''error'', PStr ''Unknown task type: dance'')]),
      stub_agent)" by simp
  from execute_task_unknown_type [of "[(''content_type'', PStr ''image'')]" stub_env stub_agent] h2
  have c2: "execute_task stub_env [(''content_type'', PStr ''image'')] stub_agent =
     (Inr (PDict [(''status'', PStr ''error''), (''error'', PStr ''Unknown task type: None'')]),
      stub_agent)" by blast
  from h1 c1 h2 c2 show ?thesis by (intro conjI)
qed

text \<open>
  C8, as amended. With the tasks \<open>ts\<close> enqueued before \<open>start\<close>, \<open>k\<close> iterations
  take the first \<open>k\<close> tasks off the queue in enqueue order, and the history then holds
  the last 100 of them at most, one entry for each, in that order. Draining at most 100
  tasks leaves exactly one entry for each task.
\<close>

theorem drain_records_last_100:
  "k \<le> length ts \<Longrightarrow>
   tasks_queue (run E (replicate k LoopStep)
      (start E (run E (map AddTask ts) (new_idol_agent E idol md strategy)))) = drop k ts \<and>
   map task (execution_history (run E (replicate k LoopStep)
      (start E (run E (map AddTask ts) (new_idol_agent E idol md strategy))))) =
     drop (k - 100) (take k ts) \<and>
   (k = length ts \<and> length ts \<le> 100 \<longrightarrow>
      map task (execution_history (run E (replicate k LoopStep)
        (start E (run E (map AddTask ts) (new_idol_agent E idol md strategy))))) = ts)"
  using drained_start [of k ts E idol md strategy] by (simp add: last100_def min_def)

text \<open>
  The witness for C8: two tasks, drained.
\<close>

theorem drain_records_last_100_witness:
  "(2::nat) \<le> length [[(''type'', PStr ''claim_royalties'')], [(''type'', PStr ''dance'')]] \<and>
   tasks_queue (run stub_env (replicate 2 LoopStep)
      (start stub_env (run stub_env
         (map AddTask [[(''type'', PStr ''claim_royalties'')], [(''type'', PStr ''dance'')]])
         (new_idol_agent stub_env ''0xA1'' [] [])))) = [] \<and>
   map task (execution_history (run stub_env (replicate 2 LoopStep)
      (start stub_env (run stub_env
         (map AddTask [[(''type'', PStr ''claim_royalties'')], [(''type'', PStr ''dance'')]])
         (new_idol_agent stub_env ''0xA1'' [] []))))) =
     [[(''type'', PStr ''claim_royalties'')], [(''type'', PStr ''dance'')]]"
  using drain_records_last_100 [of 2 "[[(''type'', PStr ''claim_royalties'')], [(''type'', PStr ''dance'')]]"
          stub_env "''0xA1''" "[]" "[]"]
  by simp

text \<open>
  The counterexample for C8 as stated: 101 tasks are enqueued and drained, and the
  history holds 100 entries.
\<close>

theorem drain_101_counterexample:
  "length (replicate 101 [(''type'', PStr ''claim_royalties'')]) = 101 \<and>
   tasks_queue (run stub_env (replicate 101 LoopStep)
      (start stub_env (run stub_env
         (map AddTask (replicate 101 [(''type'', PStr ''claim_royalties'')])) stub_agent))) = [] \<and>
   length (execution_history (run stub_env (replicate 101 LoopStep)
      (start stub_env (run stub_env
         (map AddTask (replicate 101 [(''type'', PStr ''claim_royalties'')])) stub_agent)))) = 100"
proof -
  let ?ts = "replicate 101 [(''type'', PStr ''claim_royalties'')]"
  let ?s = "run stub_env (replicate 101 LoopStep)
      (start stub_env (run stub_env (map AddTask ?ts) (new_idol_agent stub_env ''0xA1''
          [(''name'', PStr ''Mika'')] [(''content_types'', PList [PStr ''image''])])))"
  have k: "101 \<le> length ?ts" by simp
  from drained_start [OF k, of stub_env "''0xA1''" "[(''name'', PStr ''Mika'')]"
        "[(''content_types'', PList [PStr ''image''])]"]
  have q: "tasks_queue ?s = []" and m: "map task (execution_history ?s) = last100 ?ts"
    by simp_all
  have "length (map task (execution_history ?s)) = 100"
    unfolding m by (simp add: last100_def)
  then have "length (execution_history ?s) = 100" by simp
  with q show ?thesis by (simp add: stub_agent_def)
qed

text \<open>
  C9. \<open>get_metrics\<close> returns the agent's id, its flag, \<open>created_at\<close> and
  \<open>last_activity\<close> in ISO format, the depth of the queue, the length of the history and
  the seconds from \<open>created_at\<close> to the current reading of the clock. No field of the
  agent changes; the clock has been read once.
\<close>

theorem get_metrics_snapshot:
  "get_metrics E s =
     (\<lparr>m_agent_id = agent_id s,
       m_is_active = is_active s,
       m_created_at = isoformat E (created_at s),
       m_last_activity = map_option (isoformat E) (last_activity s),
       m_tasks_in_queue = length (tasks_queue s),
       m_tasks_executed = length (execution_history s),
       m_uptime_seconds = real_of_int (utcnow E (clock_reads s) - created_at s) / 1000000\<rparr>,
      s\<lparr>clock_reads := Suc (clock_reads s)\<rparr>)"
  by (simp add: get_metrics_def now_def)

text \<open>
  C10. When \<open>create_remix\<close> mints a license for a style IP that had none and then
  raises, the new entry stays at the end of \<open>licensed_ips\<close>, \<open>created_derivatives\<close> is
  unchanged, the task's result is the error record, and the next \<open>create_remix\<close> for
  that style IP makes no mint call.
\<close>

theorem create_remix_failure_keeps_license:
  assumes none: "find (\<lambda>lic. ip_id lic = style) (licensed_ips s) = None"
    and mint: "respond E (calls s) (MintLicenseTokens style 1 (PStr (idol_id s))) = Inr lr"
    and toks: "subscript lr ''license_token_ids'' = Inr tokens"
    and fails: "fst (create_remix E style s) = Inl e"
    and ty: "dict_get tsk ''type'' = PStr ''create_remix''"
    and st: "dict_get tsk ''style_ip_id'' = style"
  shows "licensed_ips (snd (create_remix E style s)) =
           licensed_ips s @ [\<lparr>ip_id = style, license_tokens = tokens,
                               licensed_at = utcnow E (clock_reads s)\<rparr>] \<and>
         created_derivatives (snd (create_remix E style s)) = created_derivatives s \<and>
         execute_task E tsk s = (Inr (error_result E e), snd (create_remix E style s)) \<and>
         filter is_mint (calls_since (snd (create_remix E style s))
            (snd (create_remix E style (snd (create_remix E style s))))) = []"
proof -
  let ?entry = "\<lparr>ip_id = style, license_tokens = tokens, licensed_at = utcnow E (clock_reads s)\<rparr>"
  let ?s' = "snd (create_remix E style s)"
  obtain lt s1 where o: "obtain_license_token E style s = (lt, s1)"
    by (cases "obtain_license_token E style s")
  note on = obtain_license_token_none [OF none, of E]
  have l1: "licensed_ips s1 = licensed_ips s @ [?entry]"
    using on(5) [OF mint toks] o by simp
  have d1: "created_derivatives s1 = created_derivatives s"
    using on(3) o by simp
  have ld: "licensed_ips ?s' = licensed_ips s @ [?entry] \<and>
            created_derivatives ?s' = created_derivatives s"
  proof (cases lt)
    case (Inl e')
    with o have "create_remix E style s = (Inl e', s1)" by (simp add: create_remix_no_token)
    with l1 d1 show ?thesis by simp
  next
    case (Inr tok)
    with o have o': "obtain_license_token E style s = (Inr tok, s1)" by simp
    from create_remix_with_token(6) [OF o'] create_remix_with_token(7) [OF o' fails] l1 d1
    show ?thesis by simp
  qed
  have "find (\<lambda>lic. ip_id lic = style) (licensed_ips ?s') = Some ?entry"
    using ld none by (simp add: find_snoc_new)
  from create_remix_licensed(1) [OF this]
  have retry: "filter is_mint (calls_since ?s' (snd (create_remix E style ?s'))) = []" .
  from ld retry execute_create_remix_failure [OF ty st fails] show ?thesis by simp
qed

text \<open>
  The witness for C10: the style server fails the first request for the style
  \<open>flaky\<close>.
\<close>

theorem create_remix_failure_keeps_license_witness:
  "find (\<lambda>lic. ip_id lic = PStr ''flaky'') (licensed_ips (start stub_env stub_agent)) = None \<and>
   respond stub_env (calls (start stub_env stub_agent))
     (MintLicenseTokens (PStr ''flaky'') 1 (PStr (idol_id (start stub_env stub_agent)))) =
     Inr (PDict [(''license_token_ids'', PList [PStr ''token-1''])]) \<and>
   subscript (PDict [(''license_token_ids'', PList [PStr ''token-1''])]) ''license_token_ids'' =
     Inr (PList [PStr ''token-1'']) \<and>
   fst (create_remix stub_env (PStr ''flaky'') (start stub_env stub_agent)) =
     Inl (CollaboratorError ''style server unavailable'') \<and>
   licensed_ips (snd (create_remix stub_env (PStr ''flaky'') (start stub_env stub_agent))) =
     [\<lparr>ip_id = PStr ''flaky'', license_tokens = PList [PStr ''token-1''],
       licensed_at = 3000000\<rparr>] \<and>
   created_derivatives (snd (create_remix stub_env (PStr ''flaky'') (start stub_env stub_agent))) = [] \<and>
   fst (execute_task stub_env [(''type'', PStr ''create_remix''), (''style_ip_id'', PStr ''flaky'')]
          (start stub_env stub_agent)) =
     Inr (PDict [(''status'', PStr ''error''), (''error'', PStr ''style server unavailable'')]) \<and>
   filter is_mint (calls_since
      (snd (create_remix stub_env (PStr ''flaky'') (start stub_env stub_agent)))
      (snd (create_remix stub_env (PStr ''flaky'')
         (snd (create_remix stub_env (PStr ''flaky'') (start stub_env stub_agent)))))) = []"
proof -
  let ?s = "start stub_env stub_agent"
  let ?tsk = "[(''type'', PStr ''create_remix''), (''style_ip_id'', PStr ''flaky'')]"
  have h1: "find (\<lambda>lic. ip_id lic = PStr ''flaky'') (licensed_ips ?s) = None"
    by (simp add: exec_defs)
  have h2: "respond stub_env (calls ?s)
     (MintLicenseTokens (PStr ''flaky'') 1 (PStr (idol_id ?s))) =
     Inr (PDict [(''license_token_ids'', PList [PStr ''token-1''])])"
    by (simp add: exec_defs)
  have h3: "subscript (PDict [(''license_token_ids'', PList [PStr ''token-1''])])
      ''license_token_ids'' = Inr (PList [PStr ''token-1''])" by simp
  have h4: "fst (create_remix stub_env (PStr ''flaky'') ?s) =
     Inl (CollaboratorError ''style server unavailable'')"
    by (simp add: exec_defs)
  have h5: "dict_get ?tsk ''type'' = PStr ''create_remix''" by (simp add: dict_get_def)
  have h6: "dict_get ?tsk ''style_ip_id'' = PStr ''flaky''" by (simp add: dict_get_def)
  have c: "utcnow stub_env (clock_reads ?s) = 3000000" "licensed_ips ?s = []"
          "created_derivatives ?s = []"
    by (simp_all add: exec_defs)
  from create_remix_failure_keeps_license [OF h1 h2 h3 h4 h5 h6] c h1 h2 h3 h4
  show ?thesis by (simp add: error_result_def)
qed

end
